theory Spec2Isabelle
  imports Main
begin

section \<open>Control transfers of a server action\<close>

text \<open>
  The server actions of \<^verbatim>\<open>utils/actions.ts\<close> end in one of three ways: they return a
  value, they let an exception escape to the caller, or they leave through
  \<^verbatim>\<open>redirect(path)\<close>. Every \<^verbatim>\<open>redirect\<close> of the file stands outside the
  \<^verbatim>\<open>try\<close> blocks, so a redirect is never seen by a \<^verbatim>\<open>catch\<close>.

  The source throws \<^verbatim>\<open>new Error(msg)\<close> itself; the other constructors are the
  exceptions of the collaborators it calls (validation, storage, upload, identity store)
  and the TypeError of reading a property of \<^verbatim>\<open>undefined\<close>.
\<close>

datatype error =
    Error string
  | TypeError string
  | ValidationError string
  | StorageError string
  | UploadError string
  | IdentityStoreError string

fun error_message :: "error \<Rightarrow> string" where
  "error_message (Error m) = m"
| "error_message (TypeError m) = m"
| "error_message (ValidationError m) = m"
| "error_message (StorageError m) = m"
| "error_message (UploadError m) = m"
| "error_message (IdentityStoreError m) = m"

text \<open>The object \<^verbatim>\<open>{ message: string }\<close>.\<close>

datatype result = Message string

datatype 'a outcome = Returns 'a | Throws error | Redirects string

text \<open>
  Modelled from the spec: \<^verbatim>\<open>renderError\<close> of \<^verbatim>\<open>utils/helpers\<close> is not among the
  sources. Section 4.2 (5): a caught error is translated "into a uniform { message }
  result".
\<close>

definition renderError :: "error \<Rightarrow> result" where
  "renderError e = Message (error_message e)"

section \<open>Data model\<close>

text \<open>
  The three relations of \<^verbatim>\<open>prisma/schema.prisma\<close>. The columns \<^verbatim>\<open>createdAt\<close> and
  \<^verbatim>\<open>updatedAt\<close> are assigned by the storage layer from its clock and are read by no
  action; they are left out. A \<^verbatim>\<open>Property\<close> row is the validated form fields
  extended by \<^verbatim>\<open>id\<close>, \<^verbatim>\<open>image\<close> and \<^verbatim>\<open>profileId\<close>, as the object spread of
  \<^verbatim>\<open>createPropertyAction\<close> builds it; likewise for \<^verbatim>\<open>Profile\<close>.
\<close>

record profile_fields =
  firstName :: string
  lastName :: string
  username :: string

record profile = profile_fields +
  profile_id :: string
  clerkId :: string
  email :: string
  profileImage :: string

record property_fields =
  name :: string
  tagline :: string
  category :: string
  country :: string
  description :: string
  price :: int
  guests :: int
  bedrooms :: int
  beds :: int
  baths :: int
  amenities :: string

record property = property_fields +
  property_id :: string
  image :: string
  property_profileId :: string

record favorite =
  favorite_id :: string
  favorite_profileId :: string
  favorite_propertyId :: string

text \<open>The projection selected by \<^verbatim>\<open>fetchProperties\<close> and \<^verbatim>\<open>fetchFavorites\<close>.\<close>

record listing =
  listing_id :: string
  listing_name :: string
  listing_tagline :: string
  listing_country :: string
  listing_image :: string
  listing_price :: int

definition project :: "property \<Rightarrow> listing" where
  "project p =
     \<lparr>listing_id = property_id p, listing_name = name p, listing_tagline = tagline p,
      listing_country = country p, listing_image = image p, listing_price = price p\<rparr>"

section \<open>External collaborators\<close>

text \<open>
  The user object of the identity provider, with the fields the actions read:
  \<^verbatim>\<open>id\<close>, \<^verbatim>\<open>emailAddresses\<close> (the addresses themselves), \<^verbatim>\<open>imageUrl\<close> and
  \<^verbatim>\<open>privateMetadata.hasProfile\<close>.
\<close>

record clerk_user =
  user_id :: string
  emailAddresses :: "string list"
  imageUrl :: "string option"
  hasProfile :: bool

record blob =
  file_name :: string
  file_size :: nat
  file_type :: string

datatype form_value = Text string | Upload blob

type_synonym formData = "(string \<times> form_value) list"

text \<open>
  The parts of the repository that the actions import and that are not among the sources
  are parameters: the two field schemas of \<^verbatim>\<open>utils/schemas\<close>, the size ceiling and the
  allowed types of its image schema, and what the object store of \<^verbatim>\<open>utils/supabase\<close>
  answers to an upload (a public path, or a failure).
\<close>

record config =
  profileSchema :: "formData \<Rightarrow> error + profile_fields"
  propertySchema :: "formData \<Rightarrow> error + property_fields"
  maxUploadSize :: nat
  acceptedFileTypes :: "string list"
  uploadResult :: "blob \<Rightarrow> error + string"

text \<open>
  The world an action runs in: the request's session and the identity store, the three
  tables, the upload calls made to the object store, the paths handed to
  \<^verbatim>\<open>revalidatePath\<close>, and the counter behind the storage layer's \<^verbatim>\<open>uuid()\<close>.
\<close>

record world =
  session :: "string option"
  clerk_users :: "clerk_user list"
  profiles :: "profile list"
  properties :: "property list"
  favorites :: "favorite list"
  upload_calls :: "blob list"
  revalidated :: "string list"
  uuid_counter :: nat

text \<open>
  \<^verbatim>\<open>@default(uuid())\<close>: an identifier that is never empty and differs from one counter
  value to the next.
\<close>

definition uuid :: "nat \<Rightarrow> string" where
  "uuid n = CHR ''u'' # replicate n (CHR ''1'')"

text \<open>
  Modelled from the spec: \<^verbatim>\<open>currentUser\<close> of the identity provider
  (\<^verbatim>\<open>@clerk/nextjs/server\<close>), which "supplies the current request's authenticated
  subject, its email/avatar, and a per-identity metadata flag indicating onboarding
  completion" (section 6). With no session there is no subject.
\<close>

definition currentUser :: "world \<Rightarrow> clerk_user option" where
  "currentUser w =
     (case session w of
        None \<Rightarrow> None
      | Some uid \<Rightarrow> find (\<lambda>u. user_id u = uid) (clerk_users w))"

text \<open>
  Modelled from the spec: \<^verbatim>\<open>clerkClient.users.updateUserMetadata\<close> of the identity
  provider; "the core calls into it to read and to set that flag" (section 6). The
  call on an identity that the store does not know fails.
\<close>

definition updateUserMetadata :: "string \<Rightarrow> bool \<Rightarrow> world \<Rightarrow> (error + unit) \<times> world" where
  "updateUserMetadata uid flag w =
     (if \<exists>u \<in> set (clerk_users w). user_id u = uid
      then (Inr (),
            w\<lparr>clerk_users :=
                map (\<lambda>u. if user_id u = uid then u\<lparr>hasProfile := flag\<rparr> else u) (clerk_users w)\<rparr>)
      else (Inl (IdentityStoreError ''Not Found''), w))"

text \<open>
  Modelled from the spec: \<^verbatim>\<open>uploadImage\<close> of \<^verbatim>\<open>utils/supabase\<close> is not among the
  sources. Section 6: the object storage "accepts an image payload and returns a
  publicly addressable path"; section 7: an upload may fail with an UploadError. Every
  call is recorded, whatever the store answers.
\<close>

definition uploadImage :: "config \<Rightarrow> blob \<Rightarrow> world \<Rightarrow> (error + string) \<times> world" where
  "uploadImage cfg f w = (uploadResult cfg f, w\<lparr>upload_calls := upload_calls w @ [f]\<rparr>)"

definition revalidatePath :: "string \<Rightarrow> world \<Rightarrow> world" where
  "revalidatePath p w = w\<lparr>revalidated := revalidated w @ [p]\<rparr>"

section \<open>Validation\<close>

text \<open>
  Modelled from the spec: \<^verbatim>\<open>validateWithZodSchema\<close> of \<^verbatim>\<open>utils/schemas\<close> is not
  among the sources. Section 4.1: given raw input, a validator produces "either a
  strongly-shaped validated object or a descriptive failure"; the failure is thrown.
\<close>

definition validateWithZodSchema :: "('a \<Rightarrow> error + 'b) \<Rightarrow> 'a \<Rightarrow> error + 'b" where
  "validateWithZodSchema schema data = schema data"

text \<open>
  Modelled from the spec: \<^verbatim>\<open>imageSchema\<close> of \<^verbatim>\<open>utils/schemas\<close> is not among the
  sources. Section 4.1: "an image-upload constraint (file presence, size ceiling,
  MIME-type allow-list)", and "the first violated constraint's message is surfaced".
  The ceiling and the allow-list are the configuration's.
\<close>

definition imageSchema :: "config \<Rightarrow> form_value option \<Rightarrow> error + blob" where
  "imageSchema cfg v =
     (case v of
        Some (Upload f) \<Rightarrow>
          if maxUploadSize cfg < file_size f
            then Inl (ValidationError ''File size exceeds the upload limit'')
          else if file_type f \<notin> set (acceptedFileTypes cfg)
            then Inl (ValidationError ''File type is not allowed'')
          else Inr f
      | _ \<Rightarrow> Inl (ValidationError ''An image file is required''))"

text \<open>\<^verbatim>\<open>formData.get(key)\<close>: the first value stored under the key, or \<^verbatim>\<open>null\<close>.\<close>

definition formData_get :: "formData \<Rightarrow> string \<Rightarrow> form_value option" where
  "formData_get fd key = map_of fd key"

section \<open>Storage operations\<close>

text \<open>
  The calls on \<^verbatim>\<open>db\<close>, with the constraints that \<^verbatim>\<open>prisma/schema.prisma\<close> declares:
  \<^verbatim>\<open>@id\<close> on every \<^verbatim>\<open>id\<close>, \<^verbatim>\<open>@unique\<close> on \<^verbatim>\<open>Profile.clerkId\<close>, and the relations
  \<^verbatim>\<open>Property.profileId\<close> and \<^verbatim>\<open>Favorite.profileId\<close> to \<^verbatim>\<open>Profile.clerkId\<close>,
  \<^verbatim>\<open>Favorite.propertyId\<close> to \<^verbatim>\<open>Property.id\<close>. The schema declares no constraint on
  the pair \<^verbatim>\<open>(profileId, propertyId)\<close> of a Favorite. A violated constraint, and an
  update or delete of a row that does not exist, throw.
\<close>

definition db_profile_findUnique :: "string \<Rightarrow> world \<Rightarrow> profile option" where
  "db_profile_findUnique cid w = find (\<lambda>p. clerkId p = cid) (profiles w)"

definition db_profile_create ::
  "string \<Rightarrow> string \<Rightarrow> string \<Rightarrow> profile_fields \<Rightarrow> world \<Rightarrow> (error + profile) \<times> world" where
  "db_profile_create cid em img v w =
     (let row = \<lparr>firstName = firstName v, lastName = lastName v, username = username v,
                 profile_id = uuid (uuid_counter w), clerkId = cid, email = em,
                 profileImage = img\<rparr>;
          w1 = w\<lparr>uuid_counter := Suc (uuid_counter w)\<rparr>
      in if \<exists>p \<in> set (profiles w). profile_id p = profile_id row
           then (Inl (StorageError ''Unique constraint failed on the fields: (id)''), w1)
         else if \<exists>p \<in> set (profiles w). clerkId p = cid
           then (Inl (StorageError ''Unique constraint failed on the fields: (clerkId)''), w1)
         else (Inr row, w1\<lparr>profiles := profiles w @ [row]\<rparr>))"

definition db_profile_update ::
  "string \<Rightarrow> (profile \<Rightarrow> profile) \<Rightarrow> world \<Rightarrow> (error + unit) \<times> world" where
  "db_profile_update cid upd w =
     (if \<exists>p \<in> set (profiles w). clerkId p = cid
      then (Inr (),
            w\<lparr>profiles := map (\<lambda>p. if clerkId p = cid then upd p else p) (profiles w)\<rparr>)
      else (Inl (StorageError ''Record to update not found''), w))"

definition db_property_create ::
  "property_fields \<Rightarrow> string \<Rightarrow> string \<Rightarrow> world \<Rightarrow> (error + property) \<times> world" where
  "db_property_create v img owner w =
     (let row = \<lparr>name = name v, tagline = tagline v, category = category v,
                 country = country v, description = description v, price = price v,
                 guests = guests v, bedrooms = bedrooms v, beds = beds v, baths = baths v,
                 amenities = amenities v,
                 property_id = uuid (uuid_counter w), image = img,
                 property_profileId = owner\<rparr>;
          w1 = w\<lparr>uuid_counter := Suc (uuid_counter w)\<rparr>
      in if \<exists>p \<in> set (properties w). property_id p = property_id row
           then (Inl (StorageError ''Unique constraint failed on the fields: (id)''), w1)
         else if \<not> (\<exists>p \<in> set (profiles w). clerkId p = owner)
           then (Inl (StorageError ''Foreign key constraint failed on the field: profileId''), w1)
         else (Inr row, w1\<lparr>properties := properties w @ [row]\<rparr>))"

definition db_favorite_findFirst :: "string \<Rightarrow> string \<Rightarrow> world \<Rightarrow> favorite option" where
  "db_favorite_findFirst pid uid w =
     find (\<lambda>f. favorite_propertyId f = pid \<and> favorite_profileId f = uid) (favorites w)"

definition db_favorite_create :: "string \<Rightarrow> string \<Rightarrow> world \<Rightarrow> (error + favorite) \<times> world" where
  "db_favorite_create pid uid w =
     (let row = \<lparr>favorite_id = uuid (uuid_counter w), favorite_profileId = uid,
                 favorite_propertyId = pid\<rparr>;
          w1 = w\<lparr>uuid_counter := Suc (uuid_counter w)\<rparr>
      in if \<exists>f \<in> set (favorites w). favorite_id f = favorite_id row
           then (Inl (StorageError ''Unique constraint failed on the fields: (id)''), w1)
         else if \<not> (\<exists>p \<in> set (profiles w). clerkId p = uid)
           then (Inl (StorageError ''Foreign key constraint failed on the field: profileId''), w1)
         else if \<not> (\<exists>p \<in> set (properties w). property_id p = pid)
           then (Inl (StorageError ''Foreign key constraint failed on the field: propertyId''), w1)
         else (Inr row, w1\<lparr>favorites := favorites w @ [row]\<rparr>))"

definition db_favorite_delete :: "string \<Rightarrow> world \<Rightarrow> (error + unit) \<times> world" where
  "db_favorite_delete fid w =
     (if \<exists>f \<in> set (favorites w). favorite_id f = fid
      then (Inr (), w\<lparr>favorites := filter (\<lambda>f. favorite_id f \<noteq> fid) (favorites w)\<rparr>)
      else (Inl (StorageError ''Record to delete does not exist''), w))"

text \<open>
  \<^verbatim>\<open>db.favorite.findMany\<close> with the nested select of \<^verbatim>\<open>fetchFavorites\<close>: the
  projected Property of each Favorite of the profile, through the relation on
  \<^verbatim>\<open>propertyId\<close>.
\<close>

definition db_favorite_findMany_property :: "string \<Rightarrow> world \<Rightarrow> listing list" where
  "db_favorite_findMany_property uid w =
     List.map_filter
       (\<lambda>f. map_option project
              (find (\<lambda>p. property_id p = favorite_propertyId f) (properties w)))
       (filter (\<lambda>f. favorite_profileId f = uid) (favorites w))"

text \<open>
  The filter \<^verbatim>\<open>{ contains: search, mode: "insensitive" }\<close> reaches the storage as
  the test \<^verbatim>\<open>column ILIKE '%' || search || '%'\<close>, with the search string as it is.
  In the pattern, \<^verbatim>\<open>%\<close> stands for any run of characters, \<^verbatim>\<open>_\<close> for any one
  character, and a backslash makes the character after it literal; any other character
  matches a character with the same case folding. The case folding is the one of the
  storage's locale and is a parameter. A char of a text column stands for one of its
  characters. The storage refuses a pattern that ends in a backslash with nothing after
  it; the patterns built here end in \<^verbatim>\<open>%\<close>, so there is always a character after a
  backslash, and the matcher answers False in that case.
\<close>

definition wildcard :: "char \<Rightarrow> bool" where
  "wildcard c = (c = CHR ''%'' \<or> c = CHR ''_'' \<or> c = CHR 0x5C)"

fun like :: "(char \<Rightarrow> char) \<Rightarrow> string \<Rightarrow> string \<Rightarrow> bool" where
  "like casefold [] s = (s = [])"
| "like casefold (p # ps) [] = (p = CHR ''%'' \<and> like casefold ps [])"
| "like casefold (p # ps) (c # cs) =
     (if p = CHR ''%'' then like casefold ps (c # cs) \<or> like casefold (p # ps) cs
      else if p = CHR ''_'' then like casefold ps cs
      else if p = CHR 0x5C then
        (case ps of [] \<Rightarrow> False | q # qs \<Rightarrow> casefold c = casefold q \<and> like casefold qs cs)
      else casefold c = casefold p \<and> like casefold ps cs)"

definition contains_insensitive :: "(char \<Rightarrow> char) \<Rightarrow> string \<Rightarrow> string \<Rightarrow> bool" where
  "contains_insensitive casefold column search =
     like casefold (CHR ''%'' # search @ [CHR ''%'']) column"

text \<open>
  \<^verbatim>\<open>db.property.findMany\<close> with the \<^verbatim>\<open>where\<close> and \<^verbatim>\<open>select\<close> of
  \<^verbatim>\<open>fetchProperties\<close>; a \<^verbatim>\<open>category\<close> that is \<^verbatim>\<open>undefined\<close> filters nothing.
\<close>

definition db_property_findMany ::
  "(char \<Rightarrow> char) \<Rightarrow> string option \<Rightarrow> string \<Rightarrow> world \<Rightarrow> listing list" where
  "db_property_findMany casefold cat search w =
     map project
       (filter
          (\<lambda>p. (case cat of None \<Rightarrow> True | Some c \<Rightarrow> category p = c) \<and>
               (contains_insensitive casefold (name p) search \<or>
                contains_insensitive casefold (tagline p) search))
          (properties w))"

section \<open>The actions of \<^verbatim>\<open>utils/actions.ts\<close>\<close>

text \<open>
  An action takes the world and returns its outcome with the world it leaves behind. The
  parameter \<^verbatim>\<open>prevState: any\<close> of the form actions is read by none of them and is
  left out. Each \<^verbatim>\<open>try\<close> block is a definition of its own (\<open>_try\<close>), whose \<open>Inl\<close>
  is the exception that the \<^verbatim>\<open>catch\<close> of the action receives.
\<close>

definition getAuthUser :: "world \<Rightarrow> clerk_user outcome" where
  "getAuthUser w =
     (case currentUser w of
        None \<Rightarrow> Throws (Error ''You must be logged in to access this route'')
      | Some user \<Rightarrow>
          if \<not> hasProfile user then Redirects ''/profile/create'' else Returns user)"

definition createProfileAction_try :: "config \<Rightarrow> formData \<Rightarrow> world \<Rightarrow> (error + unit) \<times> world" where
  "createProfileAction_try cfg fd w =
     (case currentUser w of
        None \<Rightarrow> (Inl (Error ''Please login to create a profile''), w)
      | Some user \<Rightarrow>
          (case validateWithZodSchema (profileSchema cfg) fd of
             Inl e \<Rightarrow> (Inl e, w)
           | Inr validatedFields \<Rightarrow>
               (case emailAddresses user of
                  [] \<Rightarrow> (Inl (TypeError ''Cannot read properties of undefined''), w)
                | address # _ \<Rightarrow>
                    (case db_profile_create (user_id user) address
                            (case imageUrl user of None \<Rightarrow> [] | Some url \<Rightarrow> url)
                            validatedFields w of
                       (Inl e, w1) \<Rightarrow> (Inl e, w1)
                     | (Inr _, w1) \<Rightarrow> updateUserMetadata (user_id user) True w1))))"

definition createProfileAction :: "config \<Rightarrow> formData \<Rightarrow> world \<Rightarrow> result outcome \<times> world" where
  "createProfileAction cfg fd w =
     (case createProfileAction_try cfg fd w of
        (Inl e, w1) \<Rightarrow> (Returns (renderError e), w1)
      | (Inr _, w1) \<Rightarrow> (Redirects ''/'', w1))"

definition fetchProfileImage :: "world \<Rightarrow> string option outcome \<times> world" where
  "fetchProfileImage w =
     (case currentUser w of
        None \<Rightarrow> (Returns None, w)
      | Some user \<Rightarrow>
          (Returns (map_option profileImage (db_profile_findUnique (user_id user) w)), w))"

definition fetchProfile :: "world \<Rightarrow> profile outcome \<times> world" where
  "fetchProfile w =
     (case getAuthUser w of
        Throws e \<Rightarrow> (Throws e, w)
      | Redirects path \<Rightarrow> (Redirects path, w)
      | Returns user \<Rightarrow>
          (case db_profile_findUnique (user_id user) w of
             None \<Rightarrow> (Redirects ''/profile/create'', w)
           | Some profile \<Rightarrow> (Returns profile, w)))"

definition updateProfileAction_try ::
  "config \<Rightarrow> clerk_user \<Rightarrow> formData \<Rightarrow> world \<Rightarrow> (error + result) \<times> world" where
  "updateProfileAction_try cfg user fd w =
     (case validateWithZodSchema (profileSchema cfg) fd of
        Inl e \<Rightarrow> (Inl e, w)
      | Inr validatedFields \<Rightarrow>
          (case db_profile_update (user_id user)
                  (\<lambda>p. p\<lparr>firstName := firstName validatedFields,
                          lastName := lastName validatedFields,
                          username := username validatedFields\<rparr>) w of
             (Inl e, w1) \<Rightarrow> (Inl e, w1)
           | (Inr _, w1) \<Rightarrow>
               (Inr (Message ''Profile updated successfully''), revalidatePath ''/profile'' w1)))"

definition updateProfileAction :: "config \<Rightarrow> formData \<Rightarrow> world \<Rightarrow> result outcome \<times> world" where
  "updateProfileAction cfg fd w =
     (case getAuthUser w of
        Throws e \<Rightarrow> (Throws e, w)
      | Redirects path \<Rightarrow> (Redirects path, w)
      | Returns user \<Rightarrow>
          (case updateProfileAction_try cfg user fd w of
             (Inl e, w1) \<Rightarrow> (Returns (renderError e), w1)
           | (Inr r, w1) \<Rightarrow> (Returns r, w1)))"

definition updateProfileImageAction_try ::
  "config \<Rightarrow> clerk_user \<Rightarrow> formData \<Rightarrow> world \<Rightarrow> (error + result) \<times> world" where
  "updateProfileImageAction_try cfg user fd w =
     (case validateWithZodSchema (imageSchema cfg) (formData_get fd ''image'') of
        Inl e \<Rightarrow> (Inl e, w)
      | Inr validatedImage \<Rightarrow>
          (case uploadImage cfg validatedImage w of
             (Inl e, w1) \<Rightarrow> (Inl e, w1)
           | (Inr fullPath, w1) \<Rightarrow>
               (case db_profile_update (user_id user) (\<lambda>p. p\<lparr>profileImage := fullPath\<rparr>) w1 of
                  (Inl e, w2) \<Rightarrow> (Inl e, w2)
                | (Inr _, w2) \<Rightarrow>
                    (Inr (Message ''Profile image updated successfully''),
                     revalidatePath ''/profile'' w2))))"

definition updateProfileImageAction ::
  "config \<Rightarrow> formData \<Rightarrow> world \<Rightarrow> result outcome \<times> world" where
  "updateProfileImageAction cfg fd w =
     (case getAuthUser w of
        Throws e \<Rightarrow> (Throws e, w)
      | Redirects path \<Rightarrow> (Redirects path, w)
      | Returns user \<Rightarrow>
          (case updateProfileImageAction_try cfg user fd w of
             (Inl e, w1) \<Rightarrow> (Returns (renderError e), w1)
           | (Inr r, w1) \<Rightarrow> (Returns r, w1)))"

definition createPropertyAction_try ::
  "config \<Rightarrow> clerk_user \<Rightarrow> formData \<Rightarrow> world \<Rightarrow> (error + unit) \<times> world" where
  "createPropertyAction_try cfg user fd w =
     (case validateWithZodSchema (propertySchema cfg) fd of
        Inl e \<Rightarrow> (Inl e, w)
      | Inr validatedFields \<Rightarrow>
          (case validateWithZodSchema (imageSchema cfg) (formData_get fd ''image'') of
             Inl e \<Rightarrow> (Inl e, w)
           | Inr validatedFile \<Rightarrow>
               (case uploadImage cfg validatedFile w of
                  (Inl e, w1) \<Rightarrow> (Inl e, w1)
                | (Inr fullPath, w1) \<Rightarrow>
                    (case db_property_create validatedFields fullPath (user_id user) w1 of
                       (Inl e, w2) \<Rightarrow> (Inl e, w2)
                     | (Inr _, w2) \<Rightarrow> (Inr (), w2)))))"

definition createPropertyAction :: "config \<Rightarrow> formData \<Rightarrow> world \<Rightarrow> result outcome \<times> world" where
  "createPropertyAction cfg fd w =
     (case getAuthUser w of
        Throws e \<Rightarrow> (Throws e, w)
      | Redirects path \<Rightarrow> (Redirects path, w)
      | Returns user \<Rightarrow>
          (case createPropertyAction_try cfg user fd w of
             (Inl e, w1) \<Rightarrow> (Returns (renderError e), w1)
           | (Inr _, w1) \<Rightarrow> (Redirects ''/'', w1)))"

text \<open>
  The parameter \<^verbatim>\<open>search\<close> defaults to the empty string. The first argument is the
  case folding of the storage that the call reaches.
\<close>

definition fetchProperties ::
  "(char \<Rightarrow> char) \<Rightarrow> string option \<Rightarrow> string option \<Rightarrow> world \<Rightarrow>
     listing list outcome \<times> world" where
  "fetchProperties casefold search cat w =
     (Returns (db_property_findMany casefold cat
                 (case search of None \<Rightarrow> [] | Some s \<Rightarrow> s) w), w)"

text \<open>
  \<^verbatim>\<open>favorite?.id || null\<close>: \<^verbatim>\<open>null\<close> when no row is found, and also when the id
  found is the empty string.
\<close>

definition fetchFavoriteId :: "string \<Rightarrow> world \<Rightarrow> string option outcome \<times> world" where
  "fetchFavoriteId pid w =
     (case getAuthUser w of
        Throws e \<Rightarrow> (Throws e, w)
      | Redirects path \<Rightarrow> (Redirects path, w)
      | Returns user \<Rightarrow>
          (Returns
             (case db_favorite_findFirst pid (user_id user) w of
                None \<Rightarrow> None
              | Some f \<Rightarrow> if favorite_id f = [] then None else Some (favorite_id f)),
           w))"

record toggle_state =
  propertyId :: string
  favoriteId :: "string option"
  pathname :: string

text \<open>
  The test \<^verbatim>\<open>favoriteId ? ... : ...\<close> of a \<^verbatim>\<open>string | null\<close>: true for a string
  that is not empty.
\<close>

definition truthy :: "string option \<Rightarrow> bool" where
  "truthy v = (case v of None \<Rightarrow> False | Some s \<Rightarrow> s \<noteq> [])"

definition toggleFavoriteAction_try ::
  "clerk_user \<Rightarrow> toggle_state \<Rightarrow> world \<Rightarrow> (error + result) \<times> world" where
  "toggleFavoriteAction_try user prevState w =
     (case (case favoriteId prevState of
              Some fid \<Rightarrow>
                if fid \<noteq> [] then db_favorite_delete fid w
                else map_prod (map_sum id (\<lambda>_. ())) id
                       (db_favorite_create (propertyId prevState) (user_id user) w)
            | None \<Rightarrow>
                map_prod (map_sum id (\<lambda>_. ())) id
                  (db_favorite_create (propertyId prevState) (user_id user) w)) of
        (Inl e, w1) \<Rightarrow> (Inl e, w1)
      | (Inr _, w1) \<Rightarrow>
          (Inr (Message (if truthy (favoriteId prevState)
                         then ''Removed from Faves'' else ''Added to Faves'')),
           revalidatePath (pathname prevState) w1))"

definition toggleFavoriteAction :: "toggle_state \<Rightarrow> world \<Rightarrow> result outcome \<times> world" where
  "toggleFavoriteAction prevState w =
     (case getAuthUser w of
        Throws e \<Rightarrow> (Throws e, w)
      | Redirects path \<Rightarrow> (Redirects path, w)
      | Returns user \<Rightarrow>
          (case toggleFavoriteAction_try user prevState w of
             (Inl e, w1) \<Rightarrow> (Returns (renderError e), w1)
           | (Inr r, w1) \<Rightarrow> (Returns r, w1)))"

definition fetchFavorites :: "world \<Rightarrow> listing list outcome \<times> world" where
  "fetchFavorites w =
     (case getAuthUser w of
        Throws e \<Rightarrow> (Throws e, w)
      | Redirects path \<Rightarrow> (Redirects path, w)
      | Returns user \<Rightarrow> (Returns (db_favorite_findMany_property (user_id user) w), w))"

section \<open>The component \<^verbatim>\<open>CountryFlagAndName\<close>\<close>

record country_entry =
  country_code :: string
  country_name :: string

text \<open>
  Modelled from the spec: \<^verbatim>\<open>findCountryByCode\<close> of \<^verbatim>\<open>utils/countries\<close> is not among
  the sources. Section 4.3: "look up a country by code". The country table is a
  parameter; a code that is not in it gives \<^verbatim>\<open>undefined\<close>.
\<close>

definition findCountryByCode :: "country_entry list \<Rightarrow> string \<Rightarrow> country_entry option" where
  "findCountryByCode countries c = find (\<lambda>item. country_code item = c) countries"

text \<open>
  What the component renders: the code handed to \<^verbatim>\<open>Flag\<close> and the text beside it.
  \<^verbatim>\<open>validCountry!.name\<close> on \<^verbatim>\<open>undefined\<close> throws a TypeError before anything is
  rendered; the \<^verbatim>\<open>!\<close> is erased at compile time.
\<close>

record flag_and_name =
  flag_code :: string
  shown_name :: string

definition CountryFlagAndName :: "country_entry list \<Rightarrow> string \<Rightarrow> error + flag_and_name" where
  "CountryFlagAndName countries countryCode =
     (case findCountryByCode countries countryCode of
        None \<Rightarrow> Inl (TypeError ''Cannot read properties of undefined'')
      | Some validCountry \<Rightarrow>
          Inr \<lparr>flag_code = country_code validCountry,
               shown_name =
                 (if 20 < length (country_name validCountry)
                  then take 20 (country_name validCountry) @ ''...''
                  else country_name validCountry)\<rparr>)"

section \<open>Favorites per pair, and the toggle as the pages use it\<close>

definition favorites_of_pair :: "string \<Rightarrow> string \<Rightarrow> world \<Rightarrow> favorite list" where
  "favorites_of_pair uid pid w =
     filter (\<lambda>f. favorite_profileId f = uid \<and> favorite_propertyId f = pid) (favorites w)"

definition one_favorite_per_pair :: "world \<Rightarrow> bool" where
  "one_favorite_per_pair w =
     distinct (map (\<lambda>f. (favorite_profileId f, favorite_propertyId f)) (favorites w))"

definition favorite_ids_set :: "world \<Rightarrow> bool" where
  "favorite_ids_set w = ([] \<notin> favorite_id ` set (favorites w))"

text \<open>
  The check for an existing record before toggling: the favorite id handed to
  \<^verbatim>\<open>toggleFavoriteAction\<close> is the one \<^verbatim>\<open>fetchFavoriteId\<close> reads from the table at
  that moment. A sequence of such toggles, each on a property id with a page path, is
  run from left to right.
\<close>

definition checkedToggle :: "string \<Rightarrow> string \<Rightarrow> world \<Rightarrow> world" where
  "checkedToggle pid path w =
     (case fst (fetchFavoriteId pid w) of
        Returns fid \<Rightarrow>
          snd (toggleFavoriteAction \<lparr>propertyId = pid, favoriteId = fid, pathname = path\<rparr> w)
      | _ \<Rightarrow> w)"

fun checkedToggles :: "(string \<times> string) list \<Rightarrow> world \<Rightarrow> world" where
  "checkedToggles [] w = w"
| "checkedToggles ((pid, path) # ts) w = checkedToggles ts (checkedToggle pid path w)"

section \<open>Example inputs\<close>

definition example_fields :: "formData \<Rightarrow> string \<Rightarrow> error + string" where
  "example_fields fd key =
     (case map_of fd key of
        Some (Text s) \<Rightarrow> if s = [] then Inl (ValidationError (key @ '' is required'')) else Inr s
      | _ \<Rightarrow> Inl (ValidationError (key @ '' is required'')))"

definition example_profileSchema :: "formData \<Rightarrow> error + profile_fields" where
  "example_profileSchema fd =
     (case example_fields fd ''firstName'' of
        Inl e \<Rightarrow> Inl e
      | Inr a \<Rightarrow>
          (case example_fields fd ''lastName'' of
             Inl e \<Rightarrow> Inl e
           | Inr b \<Rightarrow>
               (case example_fields fd ''username'' of
                  Inl e \<Rightarrow> Inl e
                | Inr c \<Rightarrow> Inr \<lparr>firstName = a, lastName = b, username = c\<rparr>)))"

definition example_propertySchema :: "formData \<Rightarrow> error + property_fields" where
  "example_propertySchema fd =
     (case example_fields fd ''name'' of
        Inl e \<Rightarrow> Inl e
      | Inr n \<Rightarrow>
          (case example_fields fd ''tagline'' of
             Inl e \<Rightarrow> Inl e
           | Inr t \<Rightarrow>
               Inr \<lparr>name = n, tagline = t, category = ''cabin'', country = ''ID'',
                    description = ''A quiet place'', price = 100, guests = 2, bedrooms = 1,
                    beds = 1, baths = 1, amenities = ''wifi''\<rparr>))"

definition example_config :: config where
  "example_config =
     \<lparr>profileSchema = example_profileSchema, propertySchema = example_propertySchema,
      maxUploadSize = 1048576, acceptedFileTypes = [''image/png'', ''image/jpeg''],
      uploadResult = (\<lambda>f. Inr (''https://store/'' @ file_name f))\<rparr>"

definition ada :: clerk_user where
  "ada = \<lparr>user_id = ''user_1'', emailAddresses = [''ada@example.com''],
          imageUrl = Some ''https://img/ada'', hasProfile = True\<rparr>"

definition bob :: clerk_user where
  "bob = \<lparr>user_id = ''user_2'', emailAddresses = [''bob@example.com''],
          imageUrl = None, hasProfile = False\<rparr>"

definition ada_profile :: profile where
  "ada_profile =
     \<lparr>firstName = ''Ada'', lastName = ''Lovelace'', username = ''ada'',
      profile_id = ''p1'', clerkId = ''user_1'', email = ''ada@example.com'',
      profileImage = ''https://img/ada''\<rparr>"

definition pool_house :: property where
  "pool_house =
     \<lparr>name = ''Pool House'', tagline = ''Sunny and calm'', category = ''cabin'',
      country = ''ID'', description = ''A house with a pool'', price = 120, guests = 4,
      bedrooms = 2, beds = 2, baths = 1, amenities = ''wifi'',
      property_id = ''prop_1'', image = ''https://store/pool.png'',
      property_profileId = ''user_1''\<rparr>"

text \<open>A world where Ada is signed in and onboarded, with one property and no favorite.\<close>

definition ada_world :: world where
  "ada_world =
     \<lparr>session = Some ''user_1'', clerk_users = [ada, bob], profiles = [ada_profile],
      properties = [pool_house], favorites = [], upload_calls = [], revalidated = [],
      uuid_counter = 0\<rparr>"

text \<open>The same tables with nobody signed in, and with Bob signed in before onboarding.\<close>

definition anonymous_world :: world where
  "anonymous_world = ada_world\<lparr>session := None\<rparr>"

definition bob_world :: world where
  "bob_world = ada_world\<lparr>session := Some ''user_2''\<rparr>"

text \<open>Ada signed in, while the table holds a Favorite of another profile.\<close>

definition carol_favorite :: favorite where
  "carol_favorite =
     \<lparr>favorite_id = ''fav_9'', favorite_profileId = ''user_3'', favorite_propertyId = ''prop_1''\<rparr>"

definition shared_world :: world where
  "shared_world = ada_world\<lparr>favorites := [carol_favorite]\<rparr>"

definition big_image :: blob where
  "big_image = \<lparr>file_name = ''huge.png'', file_size = 5000000, file_type = ''image/png''\<rparr>"

text \<open>A case folding for the examples: the letters A to Z, as in the C locale.\<close>

definition ascii_lower :: "char \<Rightarrow> char" where
  "ascii_lower c =
     (let k = (of_char c :: nat)
      in if of_char (CHR ''A'') \<le> k \<and> k \<le> of_char (CHR ''Z'') then char_of (k + 32) else c)"

definition pool_listing :: listing where
  "pool_listing =
     \<lparr>listing_id = ''prop_1'', listing_name = ''Pool House'',
      listing_tagline = ''Sunny and calm'', listing_country = ''ID'',
      listing_image = ''https://store/pool.png'', listing_price = 120\<rparr>"

definition example_countries :: "country_entry list" where
  "example_countries =
     [\<lparr>country_code = ''ID'', country_name = ''Indonesia''\<rparr>,
      \<lparr>country_code = ''VC'', country_name = ''Saint Vincent and the Grenadines''\<rparr>]"

section \<open>Auxiliary facts\<close>

lemma find_Some_mem: "find P xs = Some x \<Longrightarrow> x \<in> set xs \<and> P x"
  by (induction xs) (auto split: if_splits)

lemma uuid_not_empty: "uuid n \<noteq> []"
  by (simp add: uuid_def)

lemma getAuthUser_Throws:
  "getAuthUser w = Throws e \<longleftrightarrow>
     currentUser w = None \<and> e = Error ''You must be logged in to access this route''"
  by (auto simp: getAuthUser_def split: option.splits)

lemma getAuthUser_Returns:
  "getAuthUser w = Returns u \<longleftrightarrow> currentUser w = Some u \<and> hasProfile u"
  by (auto simp: getAuthUser_def split: option.splits)

lemma getAuthUser_same:
  "session w' = session w \<Longrightarrow> clerk_users w' = clerk_users w \<Longrightarrow> getAuthUser w' = getAuthUser w"
  by (cases "session w") (simp_all add: getAuthUser_def currentUser_def)

lemma like_percent_only: "like casefold [CHR ''%''] s"
  by (induction s) auto

lemma like_percent:
  "like casefold (CHR ''%'' # ps) s = (\<exists>pre rest. s = pre @ rest \<and> like casefold ps rest)"
proof (induction s)
  case Nil
  then show ?case by simp
next
  case (Cons c cs)
  show ?case
  proof
    assume "like casefold (CHR ''%'' # ps) (c # cs)"
    then consider "like casefold ps (c # cs)" | "like casefold (CHR ''%'' # ps) cs" by auto
    then show "\<exists>pre rest. c # cs = pre @ rest \<and> like casefold ps rest"
    proof cases
      case 1
      then have "c # cs = [] @ (c # cs) \<and> like casefold ps (c # cs)" by simp
      then show ?thesis by blast
    next
      case 2
      then obtain pre rest where "cs = pre @ rest" "like casefold ps rest"
        using Cons.IH by auto
      then have "c # cs = (c # pre) @ rest \<and> like casefold ps rest" by simp
      then show ?thesis by blast
    qed
  next
    assume "\<exists>pre rest. c # cs = pre @ rest \<and> like casefold ps rest"
    then obtain pre rest where eq: "c # cs = pre @ rest" and m: "like casefold ps rest"
      by auto
    show "like casefold (CHR ''%'' # ps) (c # cs)"
    proof (cases pre)
      case Nil
      with eq m have "like casefold ps (c # cs)" by simp
      then show ?thesis by simp
    next
      case (Cons a pre')
      with eq have "cs = pre' @ rest" by simp
      with m have "like casefold (CHR ''%'' # ps) cs" using Cons.IH by blast
      then show ?thesis by simp
    qed
  qed
qed

lemma like_literal:
  "\<not> wildcard p \<Longrightarrow>
   like casefold (p # ps) s =
     (\<exists>c cs. s = c # cs \<and> casefold c = casefold p \<and> like casefold ps cs)"
  by (cases s) (auto simp: wildcard_def)

lemma like_literals:
  "\<forall>p \<in> set lit. \<not> wildcard p \<Longrightarrow>
   like casefold (lit @ ps) s =
     (\<exists>a rest. s = a @ rest \<and> map casefold a = map casefold lit \<and> like casefold ps rest)"
proof (induction lit arbitrary: s)
  case Nil
  then show ?case by simp
next
  case (Cons p lit)
  then have np: "\<not> wildcard p" and others: "\<forall>q \<in> set lit. \<not> wildcard q" by auto
  show ?case
  proof
    assume "like casefold ((p # lit) @ ps) s"
    then obtain c cs where s: "s = c # cs" and c: "casefold c = casefold p"
      and m: "like casefold (lit @ ps) cs"
      using like_literal [OF np, of casefold "lit @ ps" s] by auto
    from m obtain a r where "cs = a @ r" "map casefold a = map casefold lit" "like casefold ps r"
      using Cons.IH [OF others] by blast
    then have "s = (c # a) @ r \<and> map casefold (c # a) = map casefold (p # lit) \<and>
        like casefold ps r"
      using s c by simp
    then show "\<exists>a rest. s = a @ rest \<and> map casefold a = map casefold (p # lit) \<and>
        like casefold ps rest"
      by blast
  next
    assume "\<exists>a rest. s = a @ rest \<and> map casefold a = map casefold (p # lit) \<and>
        like casefold ps rest"
    then obtain a r where s: "s = a @ r" and a: "map casefold a = map casefold (p # lit)"
      and m: "like casefold ps r" by blast
    from a obtain c a' where a': "a = c # a'" "casefold c = casefold p"
        "map casefold a' = map casefold lit"
      by (cases a) auto
    have "like casefold (lit @ ps) (a' @ r)"
      using Cons.IH [OF others, of "a' @ r"] a'(3) m by blast
    then show "like casefold ((p # lit) @ ps) s"
      using like_literal [OF np, of casefold "lit @ ps" s] s a' by simp
  qed
qed

lemma like_contains:
  assumes "\<forall>p \<in> set srch. \<not> wildcard p"
    and "like casefold (CHR ''%'' # srch @ [CHR ''%'']) t"
  shows "\<exists>pre post. map casefold t = pre @ map casefold srch @ post"
proof -
  from assms(2) obtain pre rest where t: "t = pre @ rest"
    and m: "like casefold (srch @ [CHR ''%'']) rest"
    by (auto simp: like_percent)
  from m obtain a post where "rest = a @ post" "map casefold a = map casefold srch"
    using like_literals [OF assms(1)] by blast
  with t have "map casefold t = map casefold pre @ map casefold srch @ map casefold post"
    by simp
  then show ?thesis by blast
qed

lemma like_everything: "like casefold [CHR ''%'', CHR ''%''] t"
  using like_percent [of casefold "[CHR ''%'']" t] like_percent_only by blast

lemma imageSchema_rejects:
  assumes "maxUploadSize cfg < file_size f \<or> file_type f \<notin> set (acceptedFileTypes cfg)"
  shows "\<exists>m. imageSchema cfg (Some (Upload f)) = Inl (ValidationError m)"
  using assms by (auto simp: imageSchema_def)

lemma find_flagged:
  "find (\<lambda>x. user_id x = uid) xs = Some u \<Longrightarrow>
   find (\<lambda>x. user_id x = uid)
     (map (\<lambda>x. if user_id x = uid then x\<lparr>hasProfile := b\<rparr> else x) xs) =
   Some (u\<lparr>hasProfile := b\<rparr>)"
  by (induction xs) (auto split: if_splits)

lemma toggle_delete:
  assumes "getAuthUser w = Returns u" "fid \<noteq> []" "fid \<in> favorite_id ` set (favorites w)"
  shows "toggleFavoriteAction \<lparr>propertyId = pid, favoriteId = Some fid, pathname = path\<rparr> w =
     (Returns (Message ''Removed from Faves''),
      revalidatePath path (w\<lparr>favorites := filter (\<lambda>g. favorite_id g \<noteq> fid) (favorites w)\<rparr>))"
  using assms
  by (auto simp: toggleFavoriteAction_def toggleFavoriteAction_try_def db_favorite_delete_def
        truthy_def)

lemma toggle_create:
  assumes "getAuthUser w = Returns u"
    and "user_id u \<in> clerkId ` set (profiles w)"
    and "pid \<in> property_id ` set (properties w)"
    and "uuid (uuid_counter w) \<notin> favorite_id ` set (favorites w)"
  shows "toggleFavoriteAction \<lparr>propertyId = pid, favoriteId = None, pathname = path\<rparr> w =
     (Returns (Message ''Added to Faves''),
      revalidatePath path
        (w\<lparr>uuid_counter := Suc (uuid_counter w),
           favorites := favorites w @
             [\<lparr>favorite_id = uuid (uuid_counter w), favorite_profileId = user_id u,
               favorite_propertyId = pid\<rparr>]\<rparr>))"
proof -
  have a: "\<not> (\<exists>f \<in> set (favorites w). favorite_id f = uuid (uuid_counter w))"
    using assms(4) by force
  have b: "\<exists>p \<in> set (profiles w). clerkId p = user_id u"
    using assms(2) by force
  have c: "\<exists>p \<in> set (properties w). property_id p = pid"
    using assms(3) by force
  show ?thesis
    using assms(1) a b c
    by (simp add: toggleFavoriteAction_def toggleFavoriteAction_try_def db_favorite_create_def
          truthy_def Let_def)
qed

lemma ada_resolved: "getAuthUser ada_world = Returns ada"
  by (simp add: getAuthUser_def currentUser_def ada_world_def ada_def)

lemma nobody_signed_in: "currentUser anonymous_world = None"
  by (simp add: currentUser_def anonymous_world_def ada_world_def)

lemma bob_signed_in: "currentUser bob_world = Some bob"
  by (simp add: currentUser_def bob_world_def ada_world_def ada_def bob_def)

section \<open>The presentation helper\<close>

text \<open>
  Claim C8. The component computes its output from the country code and the country
  table alone. It looks the country up by the code, so the country it shows carries
  that code; a name longer than 20 characters is shown as its first 20 characters
  followed by "...", and a name of 20 characters or fewer is shown unchanged.
\<close>

theorem CountryFlagAndName_truncates:
  assumes "findCountryByCode countries code = Some c"
  shows "country_code c = code \<and>
         CountryFlagAndName countries code =
           Inr \<lparr>flag_code = country_code c,
                shown_name = (if 20 < length (country_name c)
                              then take 20 (country_name c) @ ''...''
                              else country_name c)\<rparr>"
  using assms find_Some_mem [of "\<lambda>item. country_code item = code" countries c]
  by (simp add: CountryFlagAndName_def findCountryByCode_def)

theorem CountryFlagAndName_truncates_witness:
  "CountryFlagAndName example_countries ''VC'' =
     Inr \<lparr>flag_code = ''VC'', shown_name = ''Saint Vincent and th...''\<rparr> \<and>
   CountryFlagAndName example_countries ''ID'' =
     Inr \<lparr>flag_code = ''ID'', shown_name = ''Indonesia''\<rparr>"
proof -
  have vc: "findCountryByCode example_countries ''VC'' =
      Some \<lparr>country_code = ''VC'', country_name = ''Saint Vincent and the Grenadines''\<rparr>"
    by (simp add: findCountryByCode_def example_countries_def)
  have idn: "findCountryByCode example_countries ''ID'' =
      Some \<lparr>country_code = ''ID'', country_name = ''Indonesia''\<rparr>"
    by (simp add: findCountryByCode_def example_countries_def)
  show ?thesis
    using CountryFlagAndName_truncates [OF vc] CountryFlagAndName_truncates [OF idn]
    by simp
qed

text \<open>
  Claim C10. The component renders exactly when the country code is in the country
  table. For a code that is not in the table the lookup gives nothing, the name of
  nothing is read, and the component throws a TypeError; there is no fallback.
\<close>

theorem CountryFlagAndName_renders_iff_known:
  "(\<exists>r. CountryFlagAndName countries code = Inr r) = (code \<in> country_code ` set countries) \<and>
   (CountryFlagAndName countries code = Inl (TypeError ''Cannot read properties of undefined''))
     = (code \<notin> country_code ` set countries)"
proof (cases "findCountryByCode countries code")
  case None
  then have "code \<notin> country_code ` set countries"
    by (auto simp: findCountryByCode_def find_None_iff)
  with None show ?thesis by (simp add: CountryFlagAndName_def)
next
  case (Some c)
  then have "c \<in> set countries \<and> country_code c = code"
    using find_Some_mem [of "\<lambda>item. country_code item = code" countries c]
    by (simp add: findCountryByCode_def)
  then have "code \<in> country_code ` set countries" by force
  with Some show ?thesis by (simp add: CountryFlagAndName_def)
qed

theorem CountryFlagAndName_renders_iff_known_witness:
  "''XX'' \<notin> country_code ` set example_countries \<and>
   CountryFlagAndName example_countries ''XX'' =
     Inl (TypeError ''Cannot read properties of undefined'')"
  using CountryFlagAndName_renders_iff_known [of example_countries "''XX''"]
  by (simp add: example_countries_def)

section \<open>Searching properties\<close>

text \<open>
  Claim C5, as amended. A property search returns, for every world and so whoever is or
  is not signed in, and leaves the world as it was. Every returned row is the listing
  projection of a row of the Property table that passes the category filter: it carries
  that row's id, name, tagline, country, image and price and nothing else. The rows
  returned are the rows whose name or tagline matches the pattern made of the search
  string between two \<^verbatim>\<open>%\<close>, where \<^verbatim>\<open>%\<close> in the search string stands for any run of
  characters, \<^verbatim>\<open>_\<close> for any one character and a backslash makes the next character
  literal. When the search string has none of these three characters, the name or the
  tagline of every returned row contains the search string, letter case ignored as the
  storage folds it. With an empty search string, and likewise with no search string,
  the rows returned are all the rows that pass the category filter.
\<close>

theorem fetchProperties_search:
  "(\<exists>rows. fetchProperties casefold (Some s) cat w = (Returns rows, w) \<and>
      rows =
        map (\<lambda>p. \<lparr>listing_id = property_id p, listing_name = name p,
                   listing_tagline = tagline p, listing_country = country p,
                   listing_image = image p, listing_price = price p\<rparr>)
          (filter
             (\<lambda>p. (case cat of None \<Rightarrow> True | Some c \<Rightarrow> category p = c) \<and>
                  (like casefold (CHR ''%'' # s @ [CHR ''%'']) (name p) \<or>
                   like casefold (CHR ''%'' # s @ [CHR ''%'']) (tagline p)))
             (properties w)) \<and>
      (\<forall>r \<in> set rows.
         (\<exists>p \<in> set (properties w).
            r = \<lparr>listing_id = property_id p, listing_name = name p,
                 listing_tagline = tagline p, listing_country = country p,
                 listing_image = image p, listing_price = price p\<rparr> \<and>
            (case cat of None \<Rightarrow> True | Some c \<Rightarrow> category p = c)) \<and>
         (like casefold (CHR ''%'' # s @ [CHR ''%'']) (listing_name r) \<or>
          like casefold (CHR ''%'' # s @ [CHR ''%'']) (listing_tagline r)) \<and>
         ((\<forall>c \<in> set s. \<not> wildcard c) \<longrightarrow>
            (\<exists>pre post. map casefold (listing_name r) = pre @ map casefold s @ post) \<or>
            (\<exists>pre post. map casefold (listing_tagline r) = pre @ map casefold s @ post)))) \<and>
   fetchProperties casefold (Some []) cat w =
     (Returns
        (map (\<lambda>p. \<lparr>listing_id = property_id p, listing_name = name p,
                    listing_tagline = tagline p, listing_country = country p,
                    listing_image = image p, listing_price = price p\<rparr>)
           (filter (\<lambda>p. case cat of None \<Rightarrow> True | Some c \<Rightarrow> category p = c)
              (properties w))),
      w) \<and>
   fetchProperties casefold None cat w = fetchProperties casefold (Some []) cat w"
proof (intro conjI)
  let ?pat = "CHR ''%'' # s @ [CHR ''%'']"
  let ?proj = "\<lambda>p. \<lparr>listing_id = property_id p, listing_name = name p,
                   listing_tagline = tagline p, listing_country = country p,
                   listing_image = image p, listing_price = price p\<rparr>"
  let ?keep = "\<lambda>p. (case cat of None \<Rightarrow> True | Some c \<Rightarrow> category p = c) \<and>
                  (like casefold ?pat (name p) \<or> like casefold ?pat (tagline p))"
  let ?rows = "map ?proj (filter ?keep (properties w))"
  have proj: "project = ?proj"
    by (rule ext) (simp add: project_def)
  have run: "fetchProperties casefold (Some s) cat w = (Returns ?rows, w)"
    by (simp add: fetchProperties_def db_property_findMany_def contains_insensitive_def proj)
  have each: "\<forall>r \<in> set ?rows.
         (\<exists>p \<in> set (properties w).
            r = ?proj p \<and> (case cat of None \<Rightarrow> True | Some c \<Rightarrow> category p = c)) \<and>
         (like casefold ?pat (listing_name r) \<or> like casefold ?pat (listing_tagline r)) \<and>
         ((\<forall>c \<in> set s. \<not> wildcard c) \<longrightarrow>
            (\<exists>pre post. map casefold (listing_name r) = pre @ map casefold s @ post) \<or>
            (\<exists>pre post. map casefold (listing_tagline r) = pre @ map casefold s @ post))"
  proof
    fix r assume "r \<in> set ?rows"
    then obtain p where p: "p \<in> set (properties w)" "?keep p" and r: "r = ?proj p"
      by auto
    have names: "listing_name r = name p" "listing_tagline r = tagline p"
      by (simp_all add: r)
    have a: "\<exists>p \<in> set (properties w).
        r = ?proj p \<and> (case cat of None \<Rightarrow> True | Some c \<Rightarrow> category p = c)"
      using p r by blast
    have b: "like casefold ?pat (listing_name r) \<or> like casefold ?pat (listing_tagline r)"
      using p(2) names by simp
    have c: "(\<forall>c \<in> set s. \<not> wildcard c) \<longrightarrow>
            (\<exists>pre post. map casefold (listing_name r) = pre @ map casefold s @ post) \<or>
            (\<exists>pre post. map casefold (listing_tagline r) = pre @ map casefold s @ post)"
      using b like_contains [of s casefold "listing_name r"]
        like_contains [of s casefold "listing_tagline r"]
      by blast
    from a b c show "(\<exists>p \<in> set (properties w).
            r = ?proj p \<and> (case cat of None \<Rightarrow> True | Some c \<Rightarrow> category p = c)) \<and>
         (like casefold ?pat (listing_name r) \<or> like casefold ?pat (listing_tagline r)) \<and>
         ((\<forall>c \<in> set s. \<not> wildcard c) \<longrightarrow>
            (\<exists>pre post. map casefold (listing_name r) = pre @ map casefold s @ post) \<or>
            (\<exists>pre post. map casefold (listing_tagline r) = pre @ map casefold s @ post))"
      by blast
  qed
  from run each show "\<exists>rows. fetchProperties casefold (Some s) cat w = (Returns rows, w) \<and>
      rows = ?rows \<and>
      (\<forall>r \<in> set rows.
         (\<exists>p \<in> set (properties w).
            r = ?proj p \<and> (case cat of None \<Rightarrow> True | Some c \<Rightarrow> category p = c)) \<and>
         (like casefold ?pat (listing_name r) \<or> like casefold ?pat (listing_tagline r)) \<and>
         ((\<forall>c \<in> set s. \<not> wildcard c) \<longrightarrow>
            (\<exists>pre post. map casefold (listing_name r) = pre @ map casefold s @ post) \<or>
            (\<exists>pre post. map casefold (listing_tagline r) = pre @ map casefold s @ post)))"
    by blast
  show "fetchProperties casefold (Some []) cat w =
     (Returns (map ?proj
        (filter (\<lambda>p. case cat of None \<Rightarrow> True | Some c \<Rightarrow> category p = c) (properties w))),
      w)"
    by (simp add: fetchProperties_def db_property_findMany_def contains_insensitive_def
          like_everything proj)
  show "fetchProperties casefold None cat w = fetchProperties casefold (Some []) cat w"
    by (simp add: fetchProperties_def)
qed

theorem fetchProperties_search_witness:
  "fetchProperties ascii_lower (Some ''POOL'') None anonymous_world =
     (Returns [pool_listing], anonymous_world) \<and>
   ((\<exists>pre post. map ascii_lower ''Pool House'' = pre @ map ascii_lower ''POOL'' @ post) \<or>
    (\<exists>pre post. map ascii_lower ''Sunny and calm'' = pre @ map ascii_lower ''POOL'' @ post)) \<and>
   fetchProperties ascii_lower (Some ''zebra'') None anonymous_world =
     (Returns [], anonymous_world) \<and>
   fetchProperties ascii_lower None (Some ''cabin'') anonymous_world =
     (Returns [pool_listing], anonymous_world)"
proof -
  have a: "fetchProperties ascii_lower (Some ''POOL'') None anonymous_world =
     (Returns [pool_listing], anonymous_world)"
    by code_simp
  have b: "fetchProperties ascii_lower (Some ''zebra'') None anonymous_world =
     (Returns [], anonymous_world)"
    by code_simp
  have c: "fetchProperties ascii_lower None (Some ''cabin'') anonymous_world =
     (Returns [pool_listing], anonymous_world)"
    by code_simp
  have plain: "\<forall>c \<in> set ''POOL''. \<not> wildcard c"
    by (simp add: wildcard_def)
  have fields: "listing_name pool_listing = ''Pool House''"
    "listing_tagline pool_listing = ''Sunny and calm''"
    by (simp_all add: pool_listing_def)
  from fetchProperties_search [of ascii_lower "''POOL''" None anonymous_world]
  obtain rows where rows: "fetchProperties ascii_lower (Some ''POOL'') None anonymous_world =
      (Returns rows, anonymous_world)"
    and each: "\<forall>r \<in> set rows. (\<forall>c \<in> set ''POOL''. \<not> wildcard c) \<longrightarrow>
        (\<exists>pre post. map ascii_lower (listing_name r) = pre @ map ascii_lower ''POOL'' @ post) \<or>
        (\<exists>pre post. map ascii_lower (listing_tagline r) = pre @ map ascii_lower ''POOL'' @ post)"
    by blast
  from rows a have "rows = [pool_listing]" by simp
  with each plain fields have d:
    "(\<exists>pre post. map ascii_lower ''Pool House'' = pre @ map ascii_lower ''POOL'' @ post) \<or>
     (\<exists>pre post. map ascii_lower ''Sunny and calm'' = pre @ map ascii_lower ''POOL'' @ post)"
    by simp
  from a b c d show ?thesis by blast
qed

text \<open>
  The claim as stated fails for a search string with a wildcard: the search for
  \<^verbatim>\<open>_\<close> returns the row named Pool House, whose name and tagline have no
  underscore.
\<close>

theorem underscore_search_returns_row_without_underscore:
  "fst (fetchProperties ascii_lower (Some ''_'') None ada_world) = Returns [pool_listing] \<and>
   listing_name pool_listing = ''Pool House'' \<and>
   listing_tagline pool_listing = ''Sunny and calm'' \<and>
   CHR ''_'' \<notin> set (map ascii_lower ''Pool House'') \<and>
   CHR ''_'' \<notin> set (map ascii_lower ''Sunny and calm'')"
proof -
  have a: "fst (fetchProperties ascii_lower (Some ''_'') None ada_world) =
      Returns [pool_listing]"
    by code_simp
  have b: "CHR ''_'' \<notin> set (map ascii_lower ''Pool House'')"
    "CHR ''_'' \<notin> set (map ascii_lower ''Sunny and calm'')"
    by code_simp+
  show ?thesis using a b by (simp add: pool_listing_def)
qed

section \<open>Reading the profile\<close>

text \<open>
  Claim C4, as amended. Fetching the profile requires a resolved identity: with nobody
  signed in it throws the login error, and it redirects to the onboarding page when the
  identity is not flagged as onboarded or has no Profile row; otherwise it returns the
  row. Fetching the profile image requires nothing: with nobody signed in it returns
  null, and for a signed-in identity it returns the image of the Profile row or, when
  there is no row, no value; it neither throws nor redirects. Both are pure reads: the
  world is left as it was.
\<close>

theorem fetchProfile_and_fetchProfileImage:
  "(currentUser w = None \<longrightarrow>
      fetchProfile w = (Throws (Error ''You must be logged in to access this route''), w) \<and>
      fetchProfileImage w = (Returns None, w)) \<and>
   (currentUser w = Some u \<and> \<not> hasProfile u \<longrightarrow>
      fetchProfile w = (Redirects ''/profile/create'', w)) \<and>
   (currentUser w = Some u \<and> hasProfile u \<and> db_profile_findUnique (user_id u) w = None \<longrightarrow>
      fetchProfile w = (Redirects ''/profile/create'', w)) \<and>
   (currentUser w = Some u \<and> hasProfile u \<and> db_profile_findUnique (user_id u) w = Some p \<longrightarrow>
      fetchProfile w = (Returns p, w)) \<and>
   (currentUser w = Some u \<longrightarrow>
      fetchProfileImage w =
        (Returns (map_option profileImage (db_profile_findUnique (user_id u) w)), w)) \<and>
   snd (fetchProfile w) = w \<and> snd (fetchProfileImage w) = w"
  by (auto simp: fetchProfile_def fetchProfileImage_def getAuthUser_def
           split: option.splits outcome.splits)

theorem fetchProfile_and_fetchProfileImage_witness:
  "fetchProfile anonymous_world =
     (Throws (Error ''You must be logged in to access this route''), anonymous_world) \<and>
   fetchProfileImage anonymous_world = (Returns None, anonymous_world) \<and>
   fetchProfile bob_world = (Redirects ''/profile/create'', bob_world) \<and>
   fetchProfileImage bob_world = (Returns None, bob_world) \<and>
   fetchProfile ada_world = (Returns ada_profile, ada_world) \<and>
   fetchProfileImage ada_world = (Returns (Some ''https://img/ada''), ada_world)"
proof -
  have ada_in: "currentUser ada_world = Some ada" "hasProfile ada"
    using ada_resolved by (simp_all add: getAuthUser_Returns)
  have ada_row: "db_profile_findUnique (user_id ada) ada_world = Some ada_profile"
    by (simp add: db_profile_findUnique_def ada_world_def ada_def ada_profile_def)
  have bob_new: "\<not> hasProfile bob" "db_profile_findUnique (user_id bob) bob_world = None"
    by (simp_all add: db_profile_findUnique_def bob_world_def ada_world_def bob_def
          ada_profile_def)
  show ?thesis
    using fetchProfile_and_fetchProfileImage [where w = anonymous_world]
      fetchProfile_and_fetchProfileImage [where w = bob_world and u = bob]
      fetchProfile_and_fetchProfileImage [where w = ada_world and u = ada and p = ada_profile]
      nobody_signed_in bob_signed_in ada_in ada_row bob_new
    by (simp add: ada_profile_def)
qed

text \<open>
  The claim as stated fails for the profile image: with nobody signed in the operation
  returns null instead of failing, and for a signed-in identity with no Profile row it
  returns no value instead of redirecting.
\<close>

theorem fetchProfileImage_without_identity_or_row:
  "currentUser anonymous_world = None \<and>
   fst (fetchProfileImage anonymous_world) = Returns None \<and>
   currentUser bob_world = Some bob \<and>
   db_profile_findUnique (user_id bob) bob_world = None \<and>
   fst (fetchProfileImage bob_world) = Returns None"
proof -
  have no_row: "db_profile_findUnique (user_id bob) bob_world = None"
    by (simp add: db_profile_findUnique_def bob_world_def ada_world_def bob_def ada_profile_def)
  show ?thesis
    using nobody_signed_in bob_signed_in no_row by (simp add: fetchProfileImage_def)
qed

section \<open>Which errors an action catches\<close>

text \<open>
  Claim C1, as amended. Create profile catches every error raised in its body, the
  missing identity included, and returns it as a message; it never lets an error
  escape. Update profile, update profile image, create property and toggle favorite
  catch every error raised inside their try block (validation, upload, storage) and
  return it as a message; their identity-resolution step runs before the try block, so
  they let an error escape exactly when nobody is signed in, and the error is then the
  login error. Fetch favorite id and fetch favorites have no catch and let the same
  login error escape.
\<close>

theorem errors_caught_inside_try:
  "fst (createProfileAction cfg fd w) \<noteq> Throws e \<and>
   (currentUser w = None \<longrightarrow>
      createProfileAction cfg fd w =
        (Returns (Message ''Please login to create a profile''), w)) \<and>
   (createProfileAction_try cfg fd w = (Inl ec, wc) \<longrightarrow>
      createProfileAction cfg fd w = (Returns (renderError ec), wc)) \<and>
   (getAuthUser w = Returns u \<and> updateProfileAction_try cfg u fd w = (Inl eu, wu) \<longrightarrow>
      updateProfileAction cfg fd w = (Returns (renderError eu), wu)) \<and>
   (getAuthUser w = Returns u \<and> updateProfileImageAction_try cfg u fd w = (Inl ei, wi) \<longrightarrow>
      updateProfileImageAction cfg fd w = (Returns (renderError ei), wi)) \<and>
   (getAuthUser w = Returns u \<and> createPropertyAction_try cfg u fd w = (Inl ep, wp) \<longrightarrow>
      createPropertyAction cfg fd w = (Returns (renderError ep), wp)) \<and>
   (getAuthUser w = Returns u \<and> toggleFavoriteAction_try u st w = (Inl et, wt) \<longrightarrow>
      toggleFavoriteAction st w = (Returns (renderError et), wt)) \<and>
   (fst (updateProfileAction cfg fd w) = Throws e) = (getAuthUser w = Throws e) \<and>
   (fst (updateProfileImageAction cfg fd w) = Throws e) = (getAuthUser w = Throws e) \<and>
   (fst (createPropertyAction cfg fd w) = Throws e) = (getAuthUser w = Throws e) \<and>
   (fst (toggleFavoriteAction st w) = Throws e) = (getAuthUser w = Throws e) \<and>
   (fst (fetchFavoriteId pid w) = Throws e) = (getAuthUser w = Throws e) \<and>
   (fst (fetchFavorites w) = Throws e) = (getAuthUser w = Throws e) \<and>
   (getAuthUser w = Throws e) =
     (currentUser w = None \<and> e = Error ''You must be logged in to access this route'')"
proof (intro conjI)
  show "fst (createProfileAction cfg fd w) \<noteq> Throws e"
    by (simp add: createProfileAction_def split: prod.splits sum.splits)
  show "currentUser w = None \<longrightarrow>
      createProfileAction cfg fd w = (Returns (Message ''Please login to create a profile''), w)"
    by (simp add: createProfileAction_def createProfileAction_try_def renderError_def)
  show "createProfileAction_try cfg fd w = (Inl ec, wc) \<longrightarrow>
      createProfileAction cfg fd w = (Returns (renderError ec), wc)"
    by (simp add: createProfileAction_def)
  show "getAuthUser w = Returns u \<and> updateProfileAction_try cfg u fd w = (Inl eu, wu) \<longrightarrow>
      updateProfileAction cfg fd w = (Returns (renderError eu), wu)"
    by (simp add: updateProfileAction_def)
  show "getAuthUser w = Returns u \<and> updateProfileImageAction_try cfg u fd w = (Inl ei, wi) \<longrightarrow>
      updateProfileImageAction cfg fd w = (Returns (renderError ei), wi)"
    by (simp add: updateProfileImageAction_def)
  show "getAuthUser w = Returns u \<and> createPropertyAction_try cfg u fd w = (Inl ep, wp) \<longrightarrow>
      createPropertyAction cfg fd w = (Returns (renderError ep), wp)"
    by (simp add: createPropertyAction_def)
  show "getAuthUser w = Returns u \<and> toggleFavoriteAction_try u st w = (Inl et, wt) \<longrightarrow>
      toggleFavoriteAction st w = (Returns (renderError et), wt)"
    by (simp add: toggleFavoriteAction_def)
  show "(fst (updateProfileAction cfg fd w) = Throws e) = (getAuthUser w = Throws e)"
    by (auto simp: updateProfileAction_def split: outcome.splits sum.splits prod.splits)
  show "(fst (updateProfileImageAction cfg fd w) = Throws e) = (getAuthUser w = Throws e)"
    by (auto simp: updateProfileImageAction_def split: outcome.splits sum.splits prod.splits)
  show "(fst (createPropertyAction cfg fd w) = Throws e) = (getAuthUser w = Throws e)"
    by (auto simp: createPropertyAction_def split: outcome.splits sum.splits prod.splits)
  show "(fst (toggleFavoriteAction st w) = Throws e) = (getAuthUser w = Throws e)"
    by (auto simp: toggleFavoriteAction_def split: outcome.splits sum.splits prod.splits)
  show "(fst (fetchFavoriteId pid w) = Throws e) = (getAuthUser w = Throws e)"
    by (auto simp: fetchFavoriteId_def split: outcome.splits)
  show "(fst (fetchFavorites w) = Throws e) = (getAuthUser w = Throws e)"
    by (auto simp: fetchFavorites_def split: outcome.splits)
  show "(getAuthUser w = Throws e) =
     (currentUser w = None \<and> e = Error ''You must be logged in to access this route'')"
    by (rule getAuthUser_Throws)
qed

theorem errors_caught_inside_try_witness:
  "createProfileAction example_config [] anonymous_world =
     (Returns (Message ''Please login to create a profile''), anonymous_world) \<and>
   createProfileAction example_config [] ada_world =
     (Returns (Message ''firstName is required''), ada_world) \<and>
   updateProfileAction example_config [] ada_world =
     (Returns (Message ''firstName is required''), ada_world) \<and>
   updateProfileImageAction example_config [] ada_world =
     (Returns (Message ''An image file is required''), ada_world) \<and>
   createPropertyAction example_config [] ada_world =
     (Returns (Message ''name is required''), ada_world) \<and>
   toggleFavoriteAction
     \<lparr>propertyId = ''prop_1'', favoriteId = Some ''gone'', pathname = ''/''\<rparr> ada_world =
     (Returns (Message ''Record to delete does not exist''), ada_world)"
proof -
  let ?st = "\<lparr>propertyId = ''prop_1'', favoriteId = Some ''gone'', pathname = ''/''\<rparr>"
  have no_names: "profileSchema example_config [] =
      Inl (ValidationError ''firstName is required'')"
    by (simp add: example_config_def example_profileSchema_def example_fields_def)
  have no_fields: "propertySchema example_config [] =
      Inl (ValidationError ''name is required'')"
    by (simp add: example_config_def example_propertySchema_def example_fields_def)
  have c: "createProfileAction_try example_config [] ada_world =
      (Inl (ValidationError ''firstName is required''), ada_world)"
    using ada_resolved no_names
    by (simp add: createProfileAction_try_def validateWithZodSchema_def getAuthUser_Returns)
  have u: "updateProfileAction_try example_config ada [] ada_world =
      (Inl (ValidationError ''firstName is required''), ada_world)"
    using no_names by (simp add: updateProfileAction_try_def validateWithZodSchema_def)
  have i: "updateProfileImageAction_try example_config ada [] ada_world =
      (Inl (ValidationError ''An image file is required''), ada_world)"
    by (simp add: updateProfileImageAction_try_def validateWithZodSchema_def imageSchema_def
          formData_get_def)
  have p: "createPropertyAction_try example_config ada [] ada_world =
      (Inl (ValidationError ''name is required''), ada_world)"
    using no_fields by (simp add: createPropertyAction_try_def validateWithZodSchema_def)
  have t: "toggleFavoriteAction_try ada ?st ada_world =
      (Inl (StorageError ''Record to delete does not exist''), ada_world)"
    by (simp add: toggleFavoriteAction_try_def db_favorite_delete_def ada_world_def)
  have anon: "createProfileAction example_config [] anonymous_world =
     (Returns (Message ''Please login to create a profile''), anonymous_world)"
    using errors_caught_inside_try [where w = anonymous_world and cfg = example_config
        and fd = "[]"] nobody_signed_in
    by blast
  have signed: "createProfileAction example_config [] ada_world =
       (Returns (renderError (ValidationError ''firstName is required'')), ada_world) \<and>
     updateProfileAction example_config [] ada_world =
       (Returns (renderError (ValidationError ''firstName is required'')), ada_world) \<and>
     updateProfileImageAction example_config [] ada_world =
       (Returns (renderError (ValidationError ''An image file is required'')), ada_world) \<and>
     createPropertyAction example_config [] ada_world =
       (Returns (renderError (ValidationError ''name is required'')), ada_world) \<and>
     toggleFavoriteAction ?st ada_world =
       (Returns (renderError (StorageError ''Record to delete does not exist'')), ada_world)"
    using errors_caught_inside_try [where w = ada_world and cfg = example_config and fd = "[]"
        and u = ada and st = ?st and ec = "ValidationError ''firstName is required''"
        and eu = "ValidationError ''firstName is required''"
        and ei = "ValidationError ''An image file is required''"
        and ep = "ValidationError ''name is required''"
        and et = "StorageError ''Record to delete does not exist''"
        and wc = ada_world and wu = ada_world and wi = ada_world and wp = ada_world
        and wt = ada_world]
      ada_resolved c u i p t
    by blast
  show ?thesis
    using anon signed by (simp add: renderError_def)
qed

text \<open>
  The claim as stated fails at the identity-resolution step: with nobody signed in,
  update profile lets the login error escape instead of returning a message.
\<close>

theorem updateProfileAction_lets_login_error_escape:
  "fst (updateProfileAction example_config [] anonymous_world) =
     Throws (Error ''You must be logged in to access this route'')"
  using nobody_signed_in by (simp add: updateProfileAction_def getAuthUser_def)

section \<open>Image validation comes before upload and write\<close>

text \<open>
  Claim C6. When the image of a profile-image update or of a property creation is above
  the size ceiling or of a type that is not allowed, the operation leaves the world as
  it was: no upload call is made and no table is written. For a resolved identity the
  operation returns a validation message: the message of the image schema for the
  profile-image update; for the property creation the message of the property schema
  when the fields fail first, and the message of the image schema otherwise.
\<close>

theorem invalid_image_no_upload_no_write:
  assumes img: "formData_get fd ''image'' = Some (Upload f)"
    and bad: "maxUploadSize cfg < file_size f \<or> file_type f \<notin> set (acceptedFileTypes cfg)"
  shows "snd (updateProfileImageAction cfg fd w) = w \<and>
         snd (createPropertyAction cfg fd w) = w \<and>
         upload_calls (snd (updateProfileImageAction cfg fd w)) = upload_calls w \<and>
         upload_calls (snd (createPropertyAction cfg fd w)) = upload_calls w \<and>
         (\<exists>m. imageSchema cfg (formData_get fd ''image'') = Inl (ValidationError m) \<and>
            (getAuthUser w = Returns u \<longrightarrow>
               fst (updateProfileImageAction cfg fd w) = Returns (Message m) \<and>
               fst (createPropertyAction cfg fd w) =
                 Returns (case propertySchema cfg fd of
                            Inl e \<Rightarrow> renderError e | Inr v \<Rightarrow> Message m)))"
proof -
  from imageSchema_rejects [OF bad] obtain m
    where m: "imageSchema cfg (Some (Upload f)) = Inl (ValidationError m)" by blast
  have a: "snd (updateProfileImageAction cfg fd w) = w"
    using m img
    by (simp add: updateProfileImageAction_def updateProfileImageAction_try_def
          validateWithZodSchema_def split: outcome.splits)
  have b: "snd (createPropertyAction cfg fd w) = w"
    using m img
    by (simp add: createPropertyAction_def createPropertyAction_try_def
          validateWithZodSchema_def split: outcome.splits sum.splits)
  have c: "getAuthUser w = Returns u \<longrightarrow>
               fst (updateProfileImageAction cfg fd w) = Returns (Message m)"
    using m img
    by (simp add: updateProfileImageAction_def updateProfileImageAction_try_def
          validateWithZodSchema_def renderError_def)
  have d: "getAuthUser w = Returns u \<longrightarrow> fst (createPropertyAction cfg fd w) =
                 Returns (case propertySchema cfg fd of
                            Inl e \<Rightarrow> renderError e | Inr v \<Rightarrow> Message m)"
    using m img
    by (simp add: createPropertyAction_def createPropertyAction_try_def
          validateWithZodSchema_def renderError_def split: sum.splits)
  from a b c d m img show ?thesis by auto
qed

theorem invalid_image_no_upload_no_write_witness:
  "updateProfileImageAction example_config [(''image'', Upload big_image)] ada_world =
     (Returns (Message ''File size exceeds the upload limit''), ada_world) \<and>
   createPropertyAction example_config [(''image'', Upload big_image)] ada_world =
     (Returns (Message ''name is required''), ada_world) \<and>
   createPropertyAction example_config
     [(''name'', Text ''Hut''), (''tagline'', Text ''Small''), (''image'', Upload big_image)]
     ada_world =
     (Returns (Message ''File size exceeds the upload limit''), ada_world)"
proof -
  let ?fd1 = "[(''image'', Upload big_image)]"
  let ?fd2 = "[(''name'', Text ''Hut''), (''tagline'', Text ''Small''),
               (''image'', Upload big_image)]"
  have img1: "formData_get ?fd1 ''image'' = Some (Upload big_image)"
    by (simp add: formData_get_def)
  have img2: "formData_get ?fd2 ''image'' = Some (Upload big_image)"
    by (simp add: formData_get_def)
  have bad: "maxUploadSize example_config < file_size big_image \<or>
     file_type big_image \<notin> set (acceptedFileTypes example_config)"
    by (simp add: example_config_def big_image_def)
  have sch: "imageSchema example_config (Some (Upload big_image)) =
     Inl (ValidationError ''File size exceeds the upload limit'')"
    by (simp add: imageSchema_def example_config_def big_image_def)
  have psch1: "propertySchema example_config ?fd1 =
     Inl (ValidationError ''name is required'')"
    by (simp add: example_config_def example_propertySchema_def example_fields_def)
  have psch2: "\<exists>v. propertySchema example_config ?fd2 = Inr v"
    by (simp add: example_config_def example_propertySchema_def example_fields_def)
  have one: "updateProfileImageAction example_config ?fd1 ada_world =
       (Returns (Message ''File size exceeds the upload limit''), ada_world) \<and>
     createPropertyAction example_config ?fd1 ada_world =
       (Returns (Message ''name is required''), ada_world)"
    using invalid_image_no_upload_no_write [OF img1 bad, of ada_world ada]
      ada_resolved sch psch1 img1
    by (auto simp: renderError_def prod_eq_iff)
  have two: "createPropertyAction example_config ?fd2 ada_world =
       (Returns (Message ''File size exceeds the upload limit''), ada_world)"
    using invalid_image_no_upload_no_write [OF img2 bad, of ada_world ada]
      ada_resolved sch psch2 img2
    by (auto simp: renderError_def prod_eq_iff)
  show ?thesis using one two by simp
qed

section \<open>Creating a profile\<close>

text \<open>
  Claim C7. A profile creation with valid fields, by a signed-in identity for which the
  identity provider supplies an email address and which has no Profile row yet (the
  id generated by the storage layer being new), persists one Profile row keyed by the
  identity's id, leaves the identity flagged as onboarded in the identity store, and
  redirects to the home view. With nobody signed in, the operation returns the login
  message and changes nothing.
\<close>

theorem createProfileAction_onboards:
  "(currentUser w = Some u \<and> profileSchema cfg fd = Inr v \<and> emailAddresses u = a # as \<and>
    db_profile_findUnique (user_id u) w = None \<and>
    uuid (uuid_counter w) \<notin> profile_id ` set (profiles w) \<longrightarrow>
      fst (createProfileAction cfg fd w) = Redirects ''/'' \<and>
      profiles (snd (createProfileAction cfg fd w)) = profiles w @
        [\<lparr>firstName = firstName v, lastName = lastName v, username = username v,
          profile_id = uuid (uuid_counter w), clerkId = user_id u, email = a,
          profileImage = (case imageUrl u of None \<Rightarrow> [] | Some url \<Rightarrow> url)\<rparr>] \<and>
      currentUser (snd (createProfileAction cfg fd w)) = Some (u\<lparr>hasProfile := True\<rparr>)) \<and>
   (currentUser w = None \<longrightarrow>
      createProfileAction cfg fd w =
        (Returns (Message ''Please login to create a profile''), w))"
proof (rule conjI [OF impI impI])
  assume "currentUser w = None"
  then show "createProfileAction cfg fd w =
        (Returns (Message ''Please login to create a profile''), w)"
    by (simp add: createProfileAction_def createProfileAction_try_def renderError_def)
next
  assume h: "currentUser w = Some u \<and> profileSchema cfg fd = Inr v \<and>
    emailAddresses u = a # as \<and> db_profile_findUnique (user_id u) w = None \<and>
    uuid (uuid_counter w) \<notin> profile_id ` set (profiles w)"
  then obtain sid where sid: "session w = Some sid"
    and fu: "find (\<lambda>x. user_id x = sid) (clerk_users w) = Some u"
    by (auto simp: currentUser_def split: option.splits)
  from find_Some_mem [OF fu] have mem: "u \<in> set (clerk_users w)" and uid: "user_id u = sid"
    by auto
  have free: "\<not> (\<exists>p \<in> set (profiles w). clerkId p = user_id u)"
    using h by (auto simp: db_profile_findUnique_def find_None_iff)
  have fresh: "\<not> (\<exists>p \<in> set (profiles w). profile_id p = uuid (uuid_counter w))"
    using h by force
  let ?row = "\<lparr>firstName = firstName v, lastName = lastName v, username = username v,
             profile_id = uuid (uuid_counter w), clerkId = user_id u, email = a,
             profileImage = (case imageUrl u of None \<Rightarrow> [] | Some url \<Rightarrow> url)\<rparr>"
  let ?w1 = "w\<lparr>uuid_counter := Suc (uuid_counter w), profiles := profiles w @ [?row]\<rparr>"
  have cr: "db_profile_create (user_id u) a
      (case imageUrl u of None \<Rightarrow> [] | Some url \<Rightarrow> url) v w = (Inr ?row, ?w1)"
    using free fresh by (simp add: db_profile_create_def Let_def)
  let ?w2 = "?w1\<lparr>clerk_users :=
      map (\<lambda>x. if user_id x = user_id u then x\<lparr>hasProfile := True\<rparr> else x)
        (clerk_users w)\<rparr>"
  have up: "updateUserMetadata (user_id u) True ?w1 = (Inr (), ?w2)"
    using mem by (auto simp: updateUserMetadata_def)
  have act: "createProfileAction cfg fd w = (Redirects ''/'', ?w2)"
    using h cr up
    by (simp add: createProfileAction_def createProfileAction_try_def validateWithZodSchema_def)
  have cu: "currentUser ?w2 = Some (u\<lparr>hasProfile := True\<rparr>)"
    using sid find_flagged [OF fu, of True] uid by (simp add: currentUser_def)
  show "fst (createProfileAction cfg fd w) = Redirects ''/'' \<and>
      profiles (snd (createProfileAction cfg fd w)) = profiles w @ [?row] \<and>
      currentUser (snd (createProfileAction cfg fd w)) = Some (u\<lparr>hasProfile := True\<rparr>)"
    unfolding act using cu by simp
qed

theorem createProfileAction_onboards_witness:
  "fst (createProfileAction example_config
     [(''firstName'', Text ''Bob''), (''lastName'', Text ''Builder''), (''username'', Text ''bob'')]
     bob_world) = Redirects ''/'' \<and>
   profiles (snd (createProfileAction example_config
     [(''firstName'', Text ''Bob''), (''lastName'', Text ''Builder''), (''username'', Text ''bob'')]
     bob_world)) =
     [ada_profile,
      \<lparr>firstName = ''Bob'', lastName = ''Builder'', username = ''bob'',
       profile_id = ''u'', clerkId = ''user_2'', email = ''bob@example.com'',
       profileImage = []\<rparr>] \<and>
   map_option hasProfile (currentUser (snd (createProfileAction example_config
     [(''firstName'', Text ''Bob''), (''lastName'', Text ''Builder''), (''username'', Text ''bob'')]
     bob_world))) = Some True \<and>
   createProfileAction example_config [] anonymous_world =
     (Returns (Message ''Please login to create a profile''), anonymous_world)"
proof -
  let ?fd = "[(''firstName'', Text ''Bob''), (''lastName'', Text ''Builder''),
              (''username'', Text ''bob'')]"
  have valid: "profileSchema example_config ?fd =
      Inr \<lparr>firstName = ''Bob'', lastName = ''Builder'', username = ''bob''\<rparr>"
    by (simp add: example_config_def example_profileSchema_def example_fields_def)
  have mail: "emailAddresses bob = ''bob@example.com'' # []"
    by (simp add: bob_def)
  have no_row: "db_profile_findUnique (user_id bob) bob_world = None"
    by (simp add: db_profile_findUnique_def bob_world_def ada_world_def bob_def ada_profile_def)
  have fresh: "uuid (uuid_counter bob_world) \<notin> profile_id ` set (profiles bob_world)"
    by (simp add: bob_world_def ada_world_def ada_profile_def uuid_def)
  have facts: "profiles bob_world = [ada_profile]" "uuid (uuid_counter bob_world) = ''u''"
    "user_id bob = ''user_2''" "imageUrl bob = None"
    by (simp_all add: bob_world_def ada_world_def uuid_def bob_def)
  have signed: "fst (createProfileAction example_config ?fd bob_world) = Redirects ''/'' \<and>
      profiles (snd (createProfileAction example_config ?fd bob_world)) = profiles bob_world @
        [\<lparr>firstName = ''Bob'', lastName = ''Builder'', username = ''bob'',
          profile_id = uuid (uuid_counter bob_world), clerkId = user_id bob,
          email = ''bob@example.com'',
          profileImage = (case imageUrl bob of None \<Rightarrow> [] | Some url \<Rightarrow> url)\<rparr>] \<and>
      currentUser (snd (createProfileAction example_config ?fd bob_world)) =
        Some (bob\<lparr>hasProfile := True\<rparr>)"
    using createProfileAction_onboards [where w = bob_world and u = bob
        and cfg = example_config and fd = ?fd and a = "''bob@example.com''" and as = "[]"
        and v = "\<lparr>firstName = ''Bob'', lastName = ''Builder'', username = ''bob''\<rparr>"]
      bob_signed_in valid mail no_row fresh
    by simp
  have anon: "createProfileAction example_config [] anonymous_world =
     (Returns (Message ''Please login to create a profile''), anonymous_world)"
    using createProfileAction_onboards [where w = anonymous_world and cfg = example_config
        and fd = "[]"] nobody_signed_in
    by blast
  show ?thesis
    using signed anon facts by simp
qed

section \<open>Toggling a favorite\<close>

text \<open>
  Claim C3. For a resolved identity whose Profile row exists and an existing property
  with no Favorite row for the pair (the id generated by the storage layer being new),
  toggling with a null favorite id returns the added message and adds exactly one row,
  the row of the pair; toggling again with that row's id returns the removed message
  and deletes exactly that row: the table is the one before the first toggle, and the
  pair has no Favorite row.
\<close>

theorem toggle_favorite_round_trip:
  assumes auth: "getAuthUser w = Returns u"
    and prof: "user_id u \<in> clerkId ` set (profiles w)"
    and prty: "pid \<in> property_id ` set (properties w)"
    and none: "favorites_of_pair (user_id u) pid w = []"
    and fresh: "uuid (uuid_counter w) \<notin> favorite_id ` set (favorites w)"
    and row: "row = \<lparr>favorite_id = uuid (uuid_counter w), favorite_profileId = user_id u,
                     favorite_propertyId = pid\<rparr>"
    and w1: "w1 = snd (toggleFavoriteAction
                        \<lparr>propertyId = pid, favoriteId = None, pathname = path\<rparr> w)"
    and w2: "w2 = snd (toggleFavoriteAction
                        \<lparr>propertyId = pid, favoriteId = Some (favorite_id row),
                         pathname = path\<rparr> w1)"
  shows "fst (toggleFavoriteAction \<lparr>propertyId = pid, favoriteId = None, pathname = path\<rparr> w) =
           Returns (Message ''Added to Faves'') \<and>
         favorites w1 = favorites w @ [row] \<and>
         favorites_of_pair (user_id u) pid w1 = [row] \<and>
         fst (toggleFavoriteAction
                \<lparr>propertyId = pid, favoriteId = Some (favorite_id row), pathname = path\<rparr> w1) =
           Returns (Message ''Removed from Faves'') \<and>
         favorites w2 = favorites w \<and>
         favorites_of_pair (user_id u) pid w2 = []"
proof -
  let ?v1 = "revalidatePath path
        (w\<lparr>uuid_counter := Suc (uuid_counter w), favorites := favorites w @ [row]\<rparr>)"
  let ?v2 = "revalidatePath path
        (?v1\<lparr>favorites := filter (\<lambda>g. favorite_id g \<noteq> favorite_id row) (favorites ?v1)\<rparr>)"
  have t1: "toggleFavoriteAction \<lparr>propertyId = pid, favoriteId = None, pathname = path\<rparr> w =
       (Returns (Message ''Added to Faves''), ?v1)"
    unfolding row by (rule toggle_create [OF auth prof prty fresh])
  then have w1_eq: "w1 = ?v1" using w1 by simp
  have f1: "favorites ?v1 = favorites w @ [row]"
    by (simp add: revalidatePath_def)
  have p1: "favorites_of_pair (user_id u) pid ?v1 = [row]"
    using none by (simp add: favorites_of_pair_def revalidatePath_def row)
  have auth1: "getAuthUser ?v1 = Returns u"
    using auth getAuthUser_same [of ?v1 w] by (simp add: revalidatePath_def)
  have id1: "favorite_id row \<noteq> []"
    by (simp add: row uuid_not_empty)
  have mem1: "favorite_id row \<in> favorite_id ` set (favorites ?v1)"
    by (simp add: revalidatePath_def)
  have t2: "toggleFavoriteAction
       \<lparr>propertyId = pid, favoriteId = Some (favorite_id row), pathname = path\<rparr> ?v1 =
       (Returns (Message ''Removed from Faves''), ?v2)"
    by (rule toggle_delete [OF auth1 id1 mem1])
  then have w2_eq: "w2 = ?v2" using w2 w1_eq by simp
  have keep: "filter (\<lambda>g. favorite_id g \<noteq> favorite_id row) (favorites w) = favorites w"
    using fresh by (force simp: filter_id_conv row)
  have f2: "favorites ?v2 = favorites w"
    using keep by (simp add: revalidatePath_def)
  have p2: "favorites_of_pair (user_id u) pid ?v2 = []"
    using none f2 by (simp add: favorites_of_pair_def)
  show ?thesis
    using t1 t2 f1 p1 f2 p2 unfolding w1_eq w2_eq by simp
qed

theorem toggle_favorite_round_trip_witness:
  "fst (toggleFavoriteAction
     \<lparr>propertyId = ''prop_1'', favoriteId = None, pathname = ''/''\<rparr> ada_world) =
     Returns (Message ''Added to Faves'') \<and>
   favorites (snd (toggleFavoriteAction
     \<lparr>propertyId = ''prop_1'', favoriteId = None, pathname = ''/''\<rparr> ada_world)) =
     [\<lparr>favorite_id = ''u'', favorite_profileId = ''user_1'',
       favorite_propertyId = ''prop_1''\<rparr>] \<and>
   fst (toggleFavoriteAction
     \<lparr>propertyId = ''prop_1'', favoriteId = Some ''u'', pathname = ''/''\<rparr>
     (snd (toggleFavoriteAction
        \<lparr>propertyId = ''prop_1'', favoriteId = None, pathname = ''/''\<rparr> ada_world))) =
     Returns (Message ''Removed from Faves'') \<and>
   favorites (snd (toggleFavoriteAction
     \<lparr>propertyId = ''prop_1'', favoriteId = Some ''u'', pathname = ''/''\<rparr>
     (snd (toggleFavoriteAction
        \<lparr>propertyId = ''prop_1'', favoriteId = None, pathname = ''/''\<rparr> ada_world)))) = []"
proof -
  have prof: "user_id ada \<in> clerkId ` set (profiles ada_world)"
    by (simp add: ada_world_def ada_def ada_profile_def)
  have prty: "''prop_1'' \<in> property_id ` set (properties ada_world)"
    by (simp add: ada_world_def pool_house_def)
  have none: "favorites_of_pair (user_id ada) ''prop_1'' ada_world = []"
    by (simp add: favorites_of_pair_def ada_world_def)
  have fresh: "uuid (uuid_counter ada_world) \<notin> favorite_id ` set (favorites ada_world)"
    by (simp add: ada_world_def)
  have facts: "uuid (uuid_counter ada_world) = ''u''" "user_id ada = ''user_1''"
    "favorites ada_world = []"
    by (simp_all add: ada_world_def uuid_def ada_def)
  show ?thesis
    using toggle_favorite_round_trip [OF ada_resolved prof prty none fresh refl refl refl,
        of "''/''"]
    by (simp add: facts)
qed

text \<open>
  Claim C9. For a resolved identity, a toggle that supplies a favorite id (a string that
  is not empty, as every generated id is) deletes by that id alone: whatever Profile
  owns the Favorite row with that id and whatever property id the call names, the row is
  deleted and the removed message is returned. The owner of the row is never compared
  with the calling identity.
\<close>

theorem toggle_deletes_by_id_alone:
  assumes auth: "getAuthUser w = Returns u"
    and id: "fid \<noteq> []"
    and row: "f \<in> set (favorites w)" "favorite_id f = fid"
  shows "toggleFavoriteAction \<lparr>propertyId = pid, favoriteId = Some fid, pathname = path\<rparr> w =
           (Returns (Message ''Removed from Faves''),
            revalidatePath path
              (w\<lparr>favorites := filter (\<lambda>g. favorite_id g \<noteq> fid) (favorites w)\<rparr>)) \<and>
         f \<notin> set (favorites
           (snd (toggleFavoriteAction
              \<lparr>propertyId = pid, favoriteId = Some fid, pathname = path\<rparr> w)))"
proof -
  have mem: "fid \<in> favorite_id ` set (favorites w)" using row by force
  show ?thesis
    using toggle_delete [OF auth id mem, of pid path] row
    by (simp add: revalidatePath_def)
qed

theorem toggle_deletes_by_id_alone_witness:
  "favorite_profileId carol_favorite \<noteq> user_id ada \<and>
   getAuthUser shared_world = Returns ada \<and>
   favorites shared_world = [carol_favorite] \<and>
   toggleFavoriteAction
     \<lparr>propertyId = ''prop_1'', favoriteId = Some ''fav_9'', pathname = ''/''\<rparr> shared_world =
     (Returns (Message ''Removed from Faves''),
      shared_world\<lparr>favorites := [], revalidated := [''/'']\<rparr>)"
proof -
  have auth: "getAuthUser shared_world = Returns ada"
    by (simp add: getAuthUser_def currentUser_def shared_world_def ada_world_def ada_def)
  have id: "''fav_9'' \<noteq> []" by simp
  have row: "carol_favorite \<in> set (favorites shared_world)"
    "favorite_id carol_favorite = ''fav_9''"
    by (simp_all add: shared_world_def carol_favorite_def)
  have other: "favorite_profileId carol_favorite \<noteq> user_id ada"
    by (simp add: carol_favorite_def ada_def)
  show ?thesis
    using toggle_deletes_by_id_alone [OF auth id row, of "''prop_1''" "''/''"] auth other
    by (simp add: revalidatePath_def shared_world_def ada_world_def carol_favorite_def)
qed

section \<open>One favorite per profile and property\<close>

lemma one_per_pair_length:
  assumes "one_favorite_per_pair w"
  shows "length (favorites_of_pair uid pid w) \<le> 1"
proof -
  have "distinct (map g xs) \<Longrightarrow> length (filter (\<lambda>x. g x = k) xs) \<le> 1"
    for g :: "favorite \<Rightarrow> string \<times> string" and xs k
  proof (induction xs)
    case Nil
    then show ?case by simp
  next
    case (Cons x xs)
    show ?case
    proof (cases "g x = k")
      case True
      with Cons.prems have "k \<notin> g ` set xs" by simp
      then have "filter (\<lambda>x. g x = k) xs = []" by (auto simp: filter_empty_conv)
      with True show ?thesis by simp
    next
      case False
      with Cons show ?thesis by simp
    qed
  qed
  from this [of "\<lambda>f. (favorite_profileId f, favorite_propertyId f)" "favorites w" "(uid, pid)"]
    assms
  show ?thesis by (simp add: one_favorite_per_pair_def favorites_of_pair_def)
qed

lemma checkedToggle_found:
  assumes auth: "getAuthUser w = Returns u"
    and found: "db_favorite_findFirst pid (user_id u) w = Some f"
    and ids: "favorite_ids_set w"
  shows "favorites (checkedToggle pid path w) =
           filter (\<lambda>g. favorite_id g \<noteq> favorite_id f) (favorites w)"
proof -
  from find_Some_mem [OF found [unfolded db_favorite_findFirst_def]]
  have mem: "f \<in> set (favorites w)" by simp
  with ids have ne: "favorite_id f \<noteq> []" by (force simp: favorite_ids_set_def)
  have fid: "fst (fetchFavoriteId pid w) = Returns (Some (favorite_id f))"
    using auth found ne by (simp add: fetchFavoriteId_def)
  have mem': "favorite_id f \<in> favorite_id ` set (favorites w)" using mem by simp
  show ?thesis
    using fid toggle_delete [OF auth ne mem', of pid path]
    by (simp add: checkedToggle_def revalidatePath_def)
qed

lemma checkedToggle_not_found:
  assumes auth: "getAuthUser w = Returns u"
    and nf: "db_favorite_findFirst pid (user_id u) w = None"
  shows "favorites (checkedToggle pid path w) = favorites w \<or>
         favorites (checkedToggle pid path w) = favorites w @
           [\<lparr>favorite_id = uuid (uuid_counter w), favorite_profileId = user_id u,
             favorite_propertyId = pid\<rparr>]"
proof -
  have fid: "fst (fetchFavoriteId pid w) = Returns None"
    using auth nf by (simp add: fetchFavoriteId_def)
  show ?thesis
    using fid auth
    by (auto simp: checkedToggle_def toggleFavoriteAction_def toggleFavoriteAction_try_def
          db_favorite_create_def Let_def revalidatePath_def
          split: prod.splits sum.splits if_splits)
qed

lemma checkedToggle_preserves:
  assumes inv: "one_favorite_per_pair w" and ids: "favorite_ids_set w"
  shows "one_favorite_per_pair (checkedToggle pid path w) \<and>
         favorite_ids_set (checkedToggle pid path w)"
proof (cases "getAuthUser w")
  case (Returns u)
  show ?thesis
  proof (cases "db_favorite_findFirst pid (user_id u) w")
    case None
    then have absent: "(user_id u, pid) \<notin>
        (\<lambda>f. (favorite_profileId f, favorite_propertyId f)) ` set (favorites w)"
      by (auto simp: db_favorite_findFirst_def find_None_iff)
    from checkedToggle_not_found [OF Returns None, of path]
    show ?thesis
      using inv ids absent
      by (auto simp: one_favorite_per_pair_def favorite_ids_set_def uuid_not_empty
            not_sym [OF uuid_not_empty])
  next
    case (Some f)
    from checkedToggle_found [OF Returns Some ids, of path]
    show ?thesis
      using inv ids
      by (auto simp: one_favorite_per_pair_def favorite_ids_set_def distinct_map_filter)
  qed
next
  case (Throws e)
  then have "checkedToggle pid path w = w"
    by (simp add: checkedToggle_def fetchFavoriteId_def)
  with inv ids show ?thesis by simp
next
  case (Redirects p)
  then have "checkedToggle pid path w = w"
    by (simp add: checkedToggle_def fetchFavoriteId_def)
  with inv ids show ?thesis by simp
qed

text \<open>
  Claim C2, as amended. Neither the storage nor the toggle itself keeps a pair of
  profile and property to one Favorite row. The pair keeps at most one row when every toggle is
  handed the favorite id that fetch favorite id reads from the table at that moment:
  from a table with at most one row per pair and no empty row id, every sequence of
  such checked toggles, on whatever properties, leaves at most one Favorite row for
  every pair.
\<close>

theorem checked_toggles_keep_one_favorite_per_pair:
  assumes "one_favorite_per_pair w" and "favorite_ids_set w"
  shows "one_favorite_per_pair (checkedToggles ts w) \<and>
         favorite_ids_set (checkedToggles ts w) \<and>
         length (favorites_of_pair uid pid (checkedToggles ts w)) \<le> 1"
proof -
  have "one_favorite_per_pair (checkedToggles ts w) \<and> favorite_ids_set (checkedToggles ts w)"
    using assms
  proof (induction ts arbitrary: w)
    case Nil
    then show ?case by simp
  next
    case (Cons t ts)
    obtain p path where t: "t = (p, path)" by (cases t)
    from checkedToggle_preserves [OF Cons.prems, of p path]
    show ?case unfolding t by (simp add: Cons.IH)
  qed
  then show ?thesis using one_per_pair_length by blast
qed

theorem checked_toggles_keep_one_favorite_per_pair_witness:
  "one_favorite_per_pair ada_world \<and> favorite_ids_set ada_world \<and>
   length (favorites_of_pair ''user_1'' ''prop_1''
     (checkedToggles [(''prop_1'', ''/''), (''prop_1'', ''/''), (''prop_1'', ''/'')] ada_world))
     \<le> 1"
proof -
  have start: "one_favorite_per_pair ada_world" "favorite_ids_set ada_world"
    by (simp_all add: one_favorite_per_pair_def favorite_ids_set_def ada_world_def)
  show ?thesis
    using checked_toggles_keep_one_favorite_per_pair [OF start,
        of "[(''prop_1'', ''/''), (''prop_1'', ''/''), (''prop_1'', ''/'')]"
           "''user_1''" "''prop_1''"] start
    by simp
qed

text \<open>
  The claim as stated fails for a sequence of toggles that each supply a null favorite
  id: the second one creates a second Favorite row for the same pair, and the storage
  accepts it.
\<close>

theorem two_null_toggles_two_favorites:
  "length (favorites_of_pair ''user_1'' ''prop_1''
     (snd (toggleFavoriteAction
        \<lparr>propertyId = ''prop_1'', favoriteId = None, pathname = ''/''\<rparr>
        (snd (toggleFavoriteAction
           \<lparr>propertyId = ''prop_1'', favoriteId = None, pathname = ''/''\<rparr> ada_world))))) = 2"
  by code_simp

end
